theory Spec2Isabelle
  imports Complex_Main "HOL-Library.List_Lexorder" "HOL-Library.Product_Lexorder" "HOL-Library.AList"
begin

section \<open>Text and the text normalizer\<close>

text \<open>
  A Python \<open>str\<close> is a sequence of Unicode code points, and \<open>sorted\<close> and
  \<open>sort_values\<close> compare two strings code point by code point, a proper prefix first.
  Text is therefore a list of code points, ordered lexicographically.
\<close>

type_synonym str = "nat list"

text \<open>
  The exceptions that the modelled code can raise. \<open>ValueError\<close> is what
  \<open>pandas.qcut\<close> raises on a bad binning, \<open>IndexError\<close> what reading the first of no
  bin edges raises, \<open>OSError\<close> what \<open>open\<close> raises on a file that cannot be read, and
  \<open>JSONDecodeError\<close> what \<open>json.load\<close> raises on a file that is not JSON.
\<close>

datatype error = ValueError | IndexError | OSError | JSONDecodeError

subsection \<open>The Unicode data that \<open>normalize_str\<close> consults\<close>

text \<open>
  \<open>str.strip()\<close> removes the characters for which \<open>str.isspace\<close> holds.
\<close>

definition isspace :: "nat \<Rightarrow> bool" where
  "isspace c \<longleftrightarrow>
     (0x09 \<le> c \<and> c \<le> 0x0D) \<or> (0x1C \<le> c \<and> c \<le> 0x20) \<or> c = 0x85 \<or> c = 0xA0 \<or>
     c = 0x1680 \<or> (0x2000 \<le> c \<and> c \<le> 0x200A) \<or> c = 0x2028 \<or> c = 0x2029 \<or>
     c = 0x202F \<or> c = 0x205F \<or> c = 0x3000"

definition strip :: "str \<Rightarrow> str" where
  "strip s = rev (dropWhile isspace (rev (dropWhile isspace s)))"

text \<open>
  The compatibility decompositions (NFKD) of the code points below \<open>U+0100\<close>, from the
  Unicode character database. A code point that is not listed decomposes to itself.
  The table is exact for Latin-1 text and for everything such text decomposes to; it does
  not cover the decompositions of code points from \<open>U+0100\<close> on.
\<close>

definition nfkd_table :: "(nat \<times> nat list) list" where
  "nfkd_table =
    [(0xA0, [0x20]), (0xA8, [0x20, 0x308]), (0xAA, [0x61]), (0xAF, [0x20, 0x304]),
     (0xB2, [0x32]), (0xB3, [0x33]), (0xB4, [0x20, 0x301]), (0xB5, [0x3BC]),
     (0xB8, [0x20, 0x327]), (0xB9, [0x31]), (0xBA, [0x6F]),
     (0xBC, [0x31, 0x2044, 0x34]), (0xBD, [0x31, 0x2044, 0x32]), (0xBE, [0x33, 0x2044, 0x34]),
     (0xC0, [0x41, 0x300]), (0xC1, [0x41, 0x301]), (0xC2, [0x41, 0x302]),
     (0xC3, [0x41, 0x303]), (0xC4, [0x41, 0x308]), (0xC5, [0x41, 0x30A]),
     (0xC7, [0x43, 0x327]),
     (0xC8, [0x45, 0x300]), (0xC9, [0x45, 0x301]), (0xCA, [0x45, 0x302]), (0xCB, [0x45, 0x308]),
     (0xCC, [0x49, 0x300]), (0xCD, [0x49, 0x301]), (0xCE, [0x49, 0x302]), (0xCF, [0x49, 0x308]),
     (0xD1, [0x4E, 0x303]),
     (0xD2, [0x4F, 0x300]), (0xD3, [0x4F, 0x301]), (0xD4, [0x4F, 0x302]),
     (0xD5, [0x4F, 0x303]), (0xD6, [0x4F, 0x308]),
     (0xD9, [0x55, 0x300]), (0xDA, [0x55, 0x301]), (0xDB, [0x55, 0x302]), (0xDC, [0x55, 0x308]),
     (0xDD, [0x59, 0x301]),
     (0xE0, [0x61, 0x300]), (0xE1, [0x61, 0x301]), (0xE2, [0x61, 0x302]),
     (0xE3, [0x61, 0x303]), (0xE4, [0x61, 0x308]), (0xE5, [0x61, 0x30A]),
     (0xE7, [0x63, 0x327]),
     (0xE8, [0x65, 0x300]), (0xE9, [0x65, 0x301]), (0xEA, [0x65, 0x302]), (0xEB, [0x65, 0x308]),
     (0xEC, [0x69, 0x300]), (0xED, [0x69, 0x301]), (0xEE, [0x69, 0x302]), (0xEF, [0x69, 0x308]),
     (0xF1, [0x6E, 0x303]),
     (0xF2, [0x6F, 0x300]), (0xF3, [0x6F, 0x301]), (0xF4, [0x6F, 0x302]),
     (0xF5, [0x6F, 0x303]), (0xF6, [0x6F, 0x308]),
     (0xF9, [0x75, 0x300]), (0xFA, [0x75, 0x301]), (0xFB, [0x75, 0x302]), (0xFC, [0x75, 0x308]),
     (0xFD, [0x79, 0x301]), (0xFF, [0x79, 0x308])]"

definition nfkd_char :: "nat \<Rightarrow> nat list" where
  "nfkd_char c = (case map_of nfkd_table c of Some d \<Rightarrow> d | None \<Rightarrow> [c])"

text \<open>
  \<open>unicodedata.normalize("NFKD", s)\<close> decomposes every character and then puts each
  run of adjacent combining marks into canonical order. The reordering only permutes
  characters of non-zero combining class among themselves, and \<open>normalize_str\<close> deletes
  exactly those characters in its next step, so the model leaves the reordering out.
\<close>

definition nfkd :: "str \<Rightarrow> str" where
  "nfkd s = concat (map nfkd_char s)"

text \<open>
  \<open>unicodedata.combining(ch)\<close> is the canonical combining class, non-zero for the
  combining diacritical marks \<open>U+0300\<close> to \<open>U+036F\<close> except the grapheme joiner
  \<open>U+034F\<close>. No code point below \<open>U+0300\<close> has a non-zero class.
\<close>

definition combining :: "nat \<Rightarrow> bool" where
  "combining c \<longleftrightarrow> 0x300 \<le> c \<and> c \<le> 0x36F \<and> c \<noteq> 0x34F"

text \<open>
  \<open>str.upper()\<close> on one character: the full upper-case mapping of the code points below
  \<open>U+0100\<close> and of the Greek small mu that the micro sign decomposes to.
\<close>

definition upper_char :: "nat \<Rightarrow> nat list" where
  "upper_char c =
     (if 0x61 \<le> c \<and> c \<le> 0x7A then [c - 0x20]
      else if c = 0xB5 then [0x39C]
      else if c = 0xDF then [0x53, 0x53]
      else if 0xE0 \<le> c \<and> c \<le> 0xFE \<and> c \<noteq> 0xF7 then [c - 0x20]
      else if c = 0xFF then [0x178]
      else if c = 0x3BC then [0x39C]
      else [c])"

definition upper :: "str \<Rightarrow> str" where
  "upper s = concat (map upper_char s)"

subsection \<open>\<open>normalize_str\<close>\<close>

text \<open>
  \<^verbatim>\<open>
  def normalize_str(s):
      if pd.isna(s):
          return ""
      s = str(s).strip()
      s = "".join(ch for ch in unicodedata.normalize("NFKD", s) if not unicodedata.combining(ch))
      return s.upper()
  \<close>
  The argument is a text or a missing value (\<open>None\<close> for \<open>NaN\<close>/\<open>None\<close>).
\<close>

definition normalize_str :: "str option \<Rightarrow> str" where
  "normalize_str s =
     (case s of
        None \<Rightarrow> []
      | Some t \<Rightarrow> upper (filter (\<lambda>ch. \<not> combining ch) (nfkd (strip t))))"

text \<open>
  What \<open>normalize_str\<close> makes of a single character of already stripped text; the
  normalization of a text is the concatenation of these pieces.
\<close>

definition norm_char :: "nat \<Rightarrow> nat list" where
  "norm_char c = upper (filter (\<lambda>ch. \<not> combining ch) (nfkd_char c))"

section \<open>The pandas operations behind the tiering\<close>

text \<open>
  A count series is a list of integers: the counts come from \<open>groupby(...).size()\<close>
  and from \<open>fillna(0).astype(int)\<close>, so no entry is missing. Quantiles are floating
  point numbers in pandas; the model computes them exactly, as rationals (the fractions
  \<open>0.33\<close> and \<open>0.67\<close> are taken as \<open>33/100\<close> and \<open>67/100\<close>). For the quartiles of
  integer counts the floating point computation is exact as well.
\<close>

text \<open>\<open>Series.unique()\<close>, \<open>algorithms.unique\<close>: the distinct values, in order of first appearance.\<close>

definition unique :: "'a list \<Rightarrow> 'a list" where
  "unique xs = rev (remdups (rev xs))"

definition nunique :: "int list \<Rightarrow> nat" where
  "nunique s = length (unique s)"

text \<open>
  \<open>Series.quantile(q)\<close> with the default linear interpolation: position
  \<open>(n - 1) * q\<close> in the sorted values, interpolating between its two neighbours. Of no
  values pandas gives \<open>NaN\<close>, which a rational cannot express; the model gives \<open>0\<close>
  there, and \<open>quantile_labels\<close> never asks for it (it has at least two distinct values
  whenever it computes a quantile).
\<close>

definition quantile :: "int list \<Rightarrow> rat \<Rightarrow> rat" where
  "quantile s q =
     (if s = [] then 0
      else let xs = sort s;
               n = length xs;
               h = of_nat (n - 1) * q;
               i = nat \<lfloor>h\<rfloor>;
               lo = of_int (xs ! i);
               hi = of_int (xs ! min (i + 1) (n - 1))
           in lo + (hi - lo) * (h - of_int \<lfloor>h\<rfloor>))"

definition median :: "int list \<Rightarrow> rat" where
  "median s = quantile s (1 / 2)"

text \<open>\<open>numpy.linspace(0, 1, q + 1)\<close>, the quantiles that \<open>qcut\<close> uses for an integer \<open>q\<close>.\<close>

definition linspace01 :: "nat \<Rightarrow> rat list" where
  "linspace01 q = map (\<lambda>k. of_nat k / of_nat q) [0..<q + 1]"

text \<open>
  \<open>bins.searchsorted(x, side="left")\<close> on ascending bin edges: the position of the first
  edge that is not below \<open>x\<close>.
\<close>

definition searchsorted_left :: "rat list \<Rightarrow> rat \<Rightarrow> nat" where
  "searchsorted_left bins x = length (takeWhile (\<lambda>b. b < x) bins)"

text \<open>
  \<open>pandas.core.reshape.tile._bins_to_cuts\<close> as \<open>qcut\<close> calls it, with
  \<open>duplicates="drop"\<close>, \<open>include_lowest=True\<close>, \<open>right=True\<close>, \<open>ordered=True\<close> and a
  list of labels:
  \<^verbatim>\<open>
  unique_bins = algos.unique(bins)
  if len(unique_bins) < len(bins) and len(bins) != 2:
      if duplicates == "raise": raise ValueError(...)
      bins = unique_bins
  ids = bins.searchsorted(x_idx, side="left")
  ids[x_idx == bins[0]] = 1
  na_mask = isna(x_idx) | (ids == len(bins)) | (ids == 0)
  ...
  elif ordered and len(set(labels)) != len(labels):
      raise ValueError("labels must be unique if ordered=True; ...")
  else:
      if len(labels) != len(bins) - 1:
          raise ValueError("Bin labels must be one fewer than the number of bin edges")
  ... result = labels[ids - 1], NaN where na_mask
  \<close>
  A row outside every bin gets no label (\<open>None\<close>).
\<close>

definition bins_to_cuts :: "int list \<Rightarrow> rat list \<Rightarrow> string list \<Rightarrow> error + string option list" where
  "bins_to_cuts x bins0 labels =
     (let unique_bins = unique bins0;
          bins = (if length unique_bins < length bins0 \<and> length bins0 \<noteq> 2
                  then unique_bins else bins0)
      in if bins = [] then Inl IndexError
         else let ids = map (\<lambda>v. if of_int v = hd bins then 1
                                  else searchsorted_left bins (of_int v)) x
              in if \<not> distinct labels then Inl ValueError
                 else if length labels + 1 \<noteq> length bins then Inl ValueError
                 else Inr (map (\<lambda>i. if i = length bins \<or> i = 0 then None
                                     else Some (labels ! (i - 1))) ids))"

text \<open>\<open>pd.qcut(s, q, duplicates="drop", labels=labels)\<close> for a list \<open>q\<close> of quantiles.\<close>

definition qcut :: "int list \<Rightarrow> rat list \<Rightarrow> string list \<Rightarrow> error + string option list" where
  "qcut s q labels = bins_to_cuts s (map (quantile s) q) labels"

section \<open>\<open>quantile_labels\<close>\<close>

text \<open>
  \<^verbatim>\<open>
  def quantile_labels(s, q=[0, .25, .5, .75, 1.0], labels=("Muy baja", "Baja", "Media", "Alta")):
      if s.nunique() <= 1:
          return pd.Series(["Sin datos"] * len(s), index=s.index)
      unique_vals = s.nunique()
      try:
          return pd.qcut(s, q=q, duplicates="drop", labels=labels[:(len(q)-1)])
      except ValueError:
          if unique_vals == 2:
              median_val = s.median()
              return s.apply(lambda x: "Baja" if x <= median_val else "Alta")
          elif unique_vals == 3:
              q33, q67 = s.quantile([0.33, 0.67])
              return s.apply(lambda x: "Muy baja" if x <= q33 else ("Baja" if x <= q67 else "Media"))
          else:
              try:
                  return pd.qcut(s, q=min(unique_vals, 3), duplicates="drop",
                               labels=["Baja", "Media", "Alta"][:min(unique_vals-1, 3)])
              except ValueError:
                  median_val = s.median()
                  return s.apply(lambda x: "Baja" if x <= median_val else "Alta")
  \<close>
  Every call in the program passes \<open>s\<close> only, so \<open>q\<close> and \<open>labels\<close> are the defaults.
  The \<open>except ValueError\<close> branch is \<open>fallback_labels\<close>.
\<close>

definition q_default :: "rat list" where
  "q_default = [0, 1 / 4, 1 / 2, 3 / 4, 1]"

definition labels_default :: "string list" where
  "labels_default = [''Muy baja'', ''Baja'', ''Media'', ''Alta'']"

definition median_split :: "int list \<Rightarrow> string option list" where
  "median_split s =
     (let median_val = median s
      in map (\<lambda>x. Some (if of_int x \<le> median_val then ''Baja'' else ''Alta'')) s)"

definition tertile_split :: "int list \<Rightarrow> string option list" where
  "tertile_split s =
     (let q33 = quantile s (33 / 100); q67 = quantile s (67 / 100)
      in map (\<lambda>x. Some (if of_int x \<le> q33 then ''Muy baja''
                         else if of_int x \<le> q67 then ''Baja'' else ''Media'')) s)"

definition fallback_labels :: "int list \<Rightarrow> error + string option list" where
  "fallback_labels s =
     (let unique_vals = nunique s
      in if unique_vals = 2 then Inr (median_split s)
         else if unique_vals = 3 then Inr (tertile_split s)
         else (case qcut s (linspace01 (min unique_vals 3))
                        (take (min (unique_vals - 1) 3) [''Baja'', ''Media'', ''Alta'']) of
                 Inr r \<Rightarrow> Inr r
               | Inl ValueError \<Rightarrow> Inr (median_split s)
               | Inl e \<Rightarrow> Inl e))"

definition quantile_labels :: "int list \<Rightarrow> error + string option list" where
  "quantile_labels s =
     (if nunique s \<le> 1 then Inr (replicate (length s) (Some ''Sin datos''))
      else (case qcut s q_default (take (length q_default - 1) labels_default) of
              Inr r \<Rightarrow> Inr r
            | Inl ValueError \<Rightarrow> fallback_labels s
            | Inl e \<Rightarrow> Inl e))"

section \<open>Boundaries: features, centroids, the boundary index\<close>

text \<open>
  A GeoJSON geometry as \<open>json.load\<close> hands it over: the type and the nested coordinate
  lists. A position is a list of numbers (longitude, latitude, possibly more), a ring a list
  of positions, a polygon a list of rings, a multi-polygon a list of polygons. A feature
  has its properties (a dictionary from key to a text or \<open>null\<close>, in file order) and its
  geometry (\<open>None\<close> when the feature has none).
\<close>

datatype geometry =
    Polygon "rat list list list"
  | MultiPolygon "rat list list list list"
  | OtherGeometry

record feature =
  properties :: "(str \<times> str option) list"
  geometry :: "geometry option"

text \<open>
  \<open>np.array(ring)\<close> followed by \<open>coords[:, 0].mean()\<close> and \<open>coords[:, 1].mean()\<close>:
  the ring must be a non-empty rectangular array with at least two columns; anything else
  raises inside \<open>feature_centroid\<close>, whose \<open>except Exception\<close> turns it into
  \<open>(nan, nan)\<close>. \<open>None\<close> is \<open>NaN\<close>. The function returns \<open>(lat, lon)\<close>, the mean of
  column 1 first.
\<close>

definition mean :: "rat list \<Rightarrow> rat" where
  "mean xs = sum_list xs / of_nat (length xs)"

definition ring_centroid :: "rat list list \<Rightarrow> rat option \<times> rat option" where
  "ring_centroid ring =
     (case ring of
        [] \<Rightarrow> (None, None)
      | p # ps \<Rightarrow>
          if (\<forall>p' \<in> set ps. length p' = length p) \<and> 2 \<le> length p
          then (Some (mean (map (\<lambda>pt. pt ! 1) ring)), Some (mean (map (\<lambda>pt. pt ! 0) ring)))
          else (None, None))"

text \<open>
  \<^verbatim>\<open>
  def feature_centroid(feat):
      try:
          geom = feat["geometry"]
          if geom["type"] == "Polygon":
              coords = np.array(geom["coordinates"][0])
          elif geom["type"] == "MultiPolygon":
              coords = np.array(geom["coordinates"][0][0])
          else:
              return np.nan, np.nan
          lon = coords[:, 0].mean()
          lat = coords[:, 1].mean()
          return lat, lon
      except Exception:
          return np.nan, np.nan
  \<close>
\<close>

definition feature_centroid :: "feature \<Rightarrow> rat option \<times> rat option" where
  "feature_centroid feat =
     (case geometry feat of
        None \<Rightarrow> (None, None)
      | Some (Polygon coordinates) \<Rightarrow>
          (case coordinates of [] \<Rightarrow> (None, None) | ring # _ \<Rightarrow> ring_centroid ring)
      | Some (MultiPolygon coordinates) \<Rightarrow>
          (case coordinates of
             [] \<Rightarrow> (None, None)
           | poly # _ \<Rightarrow> (case poly of [] \<Rightarrow> (None, None) | ring # _ \<Rightarrow> ring_centroid ring))
      | Some OtherGeometry \<Rightarrow> (None, None))"

text \<open>
  The file system as \<open>load_geojson\<close> sees it: at a path there is nothing, a file that
  cannot be opened, a file that is not JSON, or a feature collection.
\<close>

datatype boundary_file = Unreadable | NotJSON | FeatureCollection "feature list"

type_synonym filesystem = "string \<Rightarrow> boundary_file option"

text \<open>A dictionary from name to feature, in insertion order.\<close>

type_synonym boundary_index = "(str \<times> feature) list"

text \<open>Python truthiness of a property value, \<open>x or y\<close>, \<open>dict.get\<close> and \<open>str.lower\<close>.\<close>

definition truthy :: "str option \<Rightarrow> bool" where
  "truthy v \<longleftrightarrow> (case v of None \<Rightarrow> False | Some t \<Rightarrow> t \<noteq> [])"

definition py_or :: "str option \<Rightarrow> str option \<Rightarrow> str option" where
  "py_or a b = (if truthy a then a else b)"

definition dict_get :: "(str \<times> str option) list \<Rightarrow> str \<Rightarrow> str option" where
  "dict_get props k = (case map_of props k of None \<Rightarrow> None | Some v \<Rightarrow> v)"

definition lower_char :: "nat \<Rightarrow> nat" where
  "lower_char c =
     (if (0x41 \<le> c \<and> c \<le> 0x5A) \<or> (0xC0 \<le> c \<and> c \<le> 0xDE \<and> c \<noteq> 0xD7) then c + 0x20 else c)"

definition lower :: "str \<Rightarrow> str" where
  "lower s = map lower_char s"

text \<open>
  \<^verbatim>\<open>
  def load_geojson(path, prop_key):
      if not path or not os.path.exists(path):
          return None, None
      with open(path, "r", encoding="utf-8") as f:
          geo = json.load(f)
      name_to_feature = {}
      for feat in geo.get("features", []):
          props = feat.get("properties", {})
          name = props.get(prop_key) or props.get(prop_key.lower()) or (list(props.values())[0] if props else None)
          if name is None:
              continue
          name_to_feature[normalize_str(name)] = feat
      return geo, name_to_feature
  \<close>
\<close>

definition feature_name :: "feature \<Rightarrow> str \<Rightarrow> str option" where
  "feature_name feat prop_key =
     (let props = properties feat
      in py_or (dict_get props prop_key)
           (py_or (dict_get props (lower prop_key))
              (case props of [] \<Rightarrow> None | (k, v) # _ \<Rightarrow> v)))"

definition add_feature :: "str \<Rightarrow> boundary_index \<Rightarrow> feature \<Rightarrow> boundary_index" where
  "add_feature prop_key name_to_feature feat =
     (case feature_name feat prop_key of
        None \<Rightarrow> name_to_feature
      | Some name \<Rightarrow> AList.update (normalize_str (Some name)) feat name_to_feature)"

definition load_geojson ::
  "filesystem \<Rightarrow> string \<Rightarrow> str \<Rightarrow> error + (feature list option \<times> boundary_index option)" where
  "load_geojson fs path prop_key =
     (if path = [] then Inr (None, None)
      else case fs path of
             None \<Rightarrow> Inr (None, None)
           | Some Unreadable \<Rightarrow> Inl OSError
           | Some NotJSON \<Rightarrow> Inl JSONDecodeError
           | Some (FeatureCollection features) \<Rightarrow>
               Inr (Some features, Some (foldl (add_feature prop_key) [] features)))"

section \<open>Business records and coordinate completion\<close>

text \<open>
  One row of the data frame after \<open>load_data\<close>: the activity label, the neighbourhood
  and the district (a text, or \<open>None\<close> for a missing value), latitude and longitude
  (\<open>None\<close> for \<open>NaN\<close>). The other columns take no part in what follows.
\<close>

record business =
  desc_epigrafe :: "str option"
  desc_barrio_local :: "str option"
  desc_distrito_local :: "str option"
  lat :: "rat option"
  lon :: "rat option"

text \<open>
  The body of one pass of the completion, written twice in the source (for
  \<open>desc_barrio_local\<close> with \<open>barrios_index\<close>, for \<open>desc_distrito_local\<close> with
  \<open>distritos_index\<close>):
  \<^verbatim>\<open>
  to_fill = df[mask_centroid].copy()
  lats, lons = [], []
  for _, r in to_fill.iterrows():
      barrio = normalize_str(r.get("desc_barrio_local"))
      lat, lon = (np.nan, np.nan)
      if barrio and barrio in barrios_index:
          lat, lon = feature_centroid(barrios_index[barrio])
      lats.append(lat); lons.append(lon)
  filled = pd.Series(lats).notna() & pd.Series(lons).notna()
  df.loc[mask_centroid, "lat"] = np.where(filled, lats, df.loc[mask_centroid, "lat"])
  df.loc[mask_centroid, "lon"] = np.where(filled, lons, df.loc[mask_centroid, "lon"])
  \<close>
\<close>

definition mask_centroid :: "business list \<Rightarrow> bool list" where
  "mask_centroid df = map (\<lambda>r. lat r = None \<or> lon r = None) df"

text \<open>\<open>df[mask]\<close> and \<open>df.loc[mask, col]\<close>: the entries at the rows where the mask holds.\<close>

definition select :: "bool list \<Rightarrow> 'a list \<Rightarrow> 'a list" where
  "select msk xs = map snd (filter fst (zip msk xs))"

text \<open>
  \<open>df.loc[mask, col] = values\<close>: the values go, in order, to the rows where the mask holds.
\<close>

fun loc_assign :: "bool list \<Rightarrow> 'a list \<Rightarrow> 'a list \<Rightarrow> 'a list" where
  "loc_assign (True # msk) (v # vals) (c # col) = v # loc_assign msk vals col"
| "loc_assign (False # msk) vals (c # col) = c # loc_assign msk vals col"
| "loc_assign msk vals col = col"

definition np_where :: "bool list \<Rightarrow> 'a list \<Rightarrow> 'a list \<Rightarrow> 'a list" where
  "np_where cond xs ys = map (\<lambda>(c, x, y). if c then x else y) (zip cond (zip xs ys))"

definition lookup_centroid :: "boundary_index \<Rightarrow> str option \<Rightarrow> rat option \<times> rat option" where
  "lookup_centroid index v =
     (let name = normalize_str v
      in if name \<noteq> [] \<and> map_of index name \<noteq> None
         then feature_centroid (the (map_of index name))
         else (None, None))"

definition fill_pass ::
  "(business \<Rightarrow> str option) \<Rightarrow> boundary_index \<Rightarrow> business list \<Rightarrow> business list" where
  "fill_pass column index df =
     (let msk = mask_centroid df;
          to_fill = select msk df;
          centroids = map (\<lambda>r. lookup_centroid index (column r)) to_fill;
          lats = map fst centroids;
          lons = map snd centroids;
          filled = map (\<lambda>(la, lo). la \<noteq> None \<and> lo \<noteq> None) centroids;
          lat_col = loc_assign msk (np_where filled lats (select msk (map lat df))) (map lat df);
          lon_col = loc_assign msk (np_where filled lons (select msk (map lon df))) (map lon df)
      in map (\<lambda>(r, la, lo). r\<lparr>lat := la, lon := lo\<rparr>) (zip df (zip lat_col lon_col)))"

text \<open>
  \<^verbatim>\<open>
  mask_centroid = df["lat"].isna() | df["lon"].isna()
  if mask_centroid.any() and (barrios_index or distritos_index):
      if barrios_index:
          ... pass over desc_barrio_local ...
      mask_centroid = df["lat"].isna() | df["lon"].isna()
      if mask_centroid.any() and distritos_index:
          ... pass over desc_distrito_local ...
  \<close>
  An index is \<open>None\<close> when its file was missing; \<open>None\<close> and the empty dictionary are
  both false in a condition.
\<close>

definition nonempty_index :: "boundary_index option \<Rightarrow> bool" where
  "nonempty_index index \<longleftrightarrow> (case index of None \<Rightarrow> False | Some m \<Rightarrow> m \<noteq> [])"

definition complete_coordinates ::
  "boundary_index option \<Rightarrow> boundary_index option \<Rightarrow> business list \<Rightarrow> business list" where
  "complete_coordinates barrios_index distritos_index df =
     (if (\<exists>m \<in> set (mask_centroid df). m) \<and>
         (nonempty_index barrios_index \<or> nonempty_index distritos_index)
      then let df1 = (if nonempty_index barrios_index
                      then fill_pass desc_barrio_local (the barrios_index) df else df)
           in if (\<exists>m \<in> set (mask_centroid df1). m) \<and> nonempty_index distritos_index
              then fill_pass desc_distrito_local (the distritos_index) df1
              else df1
      else df)"

text \<open>
  The row-wise reading of the column operations above: what one pass does to one row
  (\<open>fill_row\<close>), what a tier does whose index may be absent (\<open>fill_tier\<close>), the
  centroid a tier offers for a name (\<open>tier_centroid\<close>), and when a centroid counts as
  filled in (\<open>valid_centroid\<close>, both components defined).
\<close>

definition fill_row :: "(business \<Rightarrow> str option) \<Rightarrow> boundary_index \<Rightarrow> business \<Rightarrow> business" where
  "fill_row column index r =
     (if lat r = None \<or> lon r = None
      then (case lookup_centroid index (column r) of
              (Some la, Some lo) \<Rightarrow> r\<lparr>lat := Some la, lon := Some lo\<rparr>
            | _ \<Rightarrow> r)
      else r)"

definition fill_tier ::
  "(business \<Rightarrow> str option) \<Rightarrow> boundary_index option \<Rightarrow> business \<Rightarrow> business" where
  "fill_tier column index r = (case index of None \<Rightarrow> r | Some m \<Rightarrow> fill_row column m r)"

definition tier_centroid :: "boundary_index option \<Rightarrow> str option \<Rightarrow> rat option \<times> rat option" where
  "tier_centroid index v =
     (case index of None \<Rightarrow> (None, None) | Some m \<Rightarrow> lookup_centroid m v)"

definition valid_centroid :: "rat option \<times> rat option \<Rightarrow> bool" where
  "valid_centroid c \<longleftrightarrow> fst c \<noteq> None \<and> snd c \<noteq> None"

section \<open>Aggregation and the opportunity table\<close>

text \<open>
  \<^verbatim>\<open>
  df_plot = df[df[epigrafe_col] == normalize_str(actividad_sel)].copy()
  grupo_barrio = df_plot.groupby("desc_barrio_local").size().rename("n_locales").to_frame()
  grupo_distrito = df_plot.groupby("desc_distrito_local").size().rename("n_locales").to_frame()
  \<close>
  \<open>groupby(col).size()\<close> leaves out the rows whose key is missing and gives one row per
  key, in ascending order of the key, with the number of rows of that key.
\<close>

definition dropna :: "'a option list \<Rightarrow> 'a list" where
  "dropna xs = map the (filter (\<lambda>x. x \<noteq> None) xs)"

definition df_plot :: "business list \<Rightarrow> str \<Rightarrow> business list" where
  "df_plot df actividad_sel =
     filter (\<lambda>r. desc_epigrafe r = Some (normalize_str (Some actividad_sel))) df"

definition groupby_size :: "(business \<Rightarrow> str option) \<Rightarrow> business list \<Rightarrow> (str \<times> int) list" where
  "groupby_size column df =
     (let keys = dropna (map column df)
      in map (\<lambda>k. (k, int (length (filter (\<lambda>k'. k' = k) keys)))) (sort (unique keys)))"

definition grupo_barrio :: "business list \<Rightarrow> str \<Rightarrow> (str \<times> int) list" where
  "grupo_barrio df actividad_sel = groupby_size desc_barrio_local (df_plot df actividad_sel)"

definition grupo_distrito :: "business list \<Rightarrow> str \<Rightarrow> (str \<times> int) list" where
  "grupo_distrito df actividad_sel = groupby_size desc_distrito_local (df_plot df actividad_sel)"

text \<open>
  \<open>all_areas.merge(existing_areas, how="left", on=level_col)\<close>: every row of the left
  frame, in its order, once for each row of the right frame with the same key, and once
  with a missing count when there is none.
\<close>

definition merge_left :: "str list \<Rightarrow> (str \<times> int) list \<Rightarrow> (str \<times> int option) list" where
  "merge_left left_keys right_rows =
     concat (map (\<lambda>a. case filter (\<lambda>(k, n). k = a) right_rows of
                        [] \<Rightarrow> [(a, None)]
                      | ms \<Rightarrow> map (\<lambda>(k, n). (a, Some n)) ms) left_keys)"

text \<open>The two choices of the selector "Nivel de analisis", and a row of the table.\<close>

datatype level = Barrio | Distrito

record opportunity =
  area :: str
  n_locales :: int
  categoria :: "string option"

text \<open>
  \<^verbatim>\<open>
  def compute_opportunities(level="Barrio"):
      level_col = "desc_barrio_local" if level == "Barrio" else "desc_distrito_local"
      if level == "Barrio":
          all_areas_in_data = df["desc_barrio_local"].dropna().unique()
      else:
          all_areas_in_data = df["desc_distrito_local"].dropna().unique()
      all_areas = pd.DataFrame({level_col: sorted(all_areas_in_data)})
      if level == "Barrio" and grupo_barrio is not None:
          existing_areas = grupo_barrio.reset_index().rename(columns={"index": level_col})
      elif level == "Distrito" and grupo_distrito is not None:
          existing_areas = grupo_distrito.reset_index().rename(columns={"index": level_col})
      else:
          existing_areas = pd.DataFrame(columns=[level_col, "n_locales"])
      comp = all_areas.merge(existing_areas, how="left", on=level_col)
      comp["n_locales"] = comp["n_locales"].fillna(0).astype(int)
      if len(comp) > 0 and comp["n_locales"].max() > 0:
          comp["categoria"] = quantile_labels(comp["n_locales"])
      else:
          comp["categoria"] = "Sin datos"
      comp = comp.sort_values(["n_locales", level_col], ascending=[True, True])
      return comp[[level_col, "n_locales", "categoria"]]
  \<close>
  The globals \<open>df\<close>, \<open>grupo_barrio\<close> and \<open>grupo_distrito\<close> are arguments here; a group
  frame is \<open>None\<close> when its column is not in the data.
\<close>

definition level_col :: "level \<Rightarrow> business \<Rightarrow> str option" where
  "level_col lv = (case lv of Barrio \<Rightarrow> desc_barrio_local | Distrito \<Rightarrow> desc_distrito_local)"

definition all_areas :: "business list \<Rightarrow> level \<Rightarrow> str list" where
  "all_areas df lv = sort (unique (dropna (map (level_col lv) df)))"

definition existing_areas ::
  "(str \<times> int) list option \<Rightarrow> (str \<times> int) list option \<Rightarrow> level \<Rightarrow> (str \<times> int) list" where
  "existing_areas g_barrio g_distrito lv =
     (case (lv, g_barrio, g_distrito) of
        (Barrio, Some g, _) \<Rightarrow> g
      | (Distrito, _, Some g) \<Rightarrow> g
      | _ \<Rightarrow> [])"

definition fillna0 :: "int option \<Rightarrow> int" where
  "fillna0 n = (case n of None \<Rightarrow> 0 | Some k \<Rightarrow> k)"

definition compute_opportunities ::
  "business list \<Rightarrow> (str \<times> int) list option \<Rightarrow> (str \<times> int) list option \<Rightarrow> level
     \<Rightarrow> error + opportunity list" where
  "compute_opportunities df g_barrio g_distrito lv =
     (let comp = merge_left (all_areas df lv) (existing_areas g_barrio g_distrito lv);
          names = map fst comp;
          counts = map (\<lambda>(a, n). fillna0 n) comp;
          categories = (if 0 < length comp \<and> 0 < Max (set counts)
                        then quantile_labels counts
                        else Inr (replicate (length comp) (Some ''Sin datos'')))
      in case categories of
           Inl e \<Rightarrow> Inl e
         | Inr cats \<Rightarrow>
             Inr (sort_key (\<lambda>row. (n_locales row, area row))
                    (map (\<lambda>(a, n, c). \<lparr>area = a, n_locales = n, categoria = c\<rparr>)
                       (zip names (zip counts cats)))))"

text \<open>
  The table for a data frame and a selected activity: the group frames are the ones the
  module computes from \<open>df\<close> and \<open>actividad_sel\<close> before it calls
  \<open>compute_opportunities\<close>.
\<close>

definition tabla_op :: "business list \<Rightarrow> str \<Rightarrow> level \<Rightarrow> error + opportunity list" where
  "tabla_op df actividad_sel lv =
     compute_opportunities df (Some (grupo_barrio df actividad_sel))
       (Some (grupo_distrito df actividad_sel)) lv"

subsection \<open>Notions for stating the properties of the aggregates\<close>

text \<open>
  A row with its coordinates erased, for comparing data frames that differ in the
  coordinate columns only.
\<close>

definition erase_coordinates :: "business \<Rightarrow> business" where
  "erase_coordinates r = r\<lparr>lat := None, lon := None\<rparr>"

text \<open>
  The number of records of the selected activity whose area column holds the area \<open>a\<close>,
  counted directly on the data frame.
\<close>

definition matching :: "business list \<Rightarrow> str \<Rightarrow> (business \<Rightarrow> str option) \<Rightarrow> str \<Rightarrow> int" where
  "matching df actividad_sel column a =
     int (length (filter (\<lambda>r. desc_epigrafe r = Some (normalize_str (Some actividad_sel)) \<and>
                              column r = Some a) df))"

text \<open>
  The grouping as a function of the activity and area columns alone, and the rows of the
  opportunity table before they are sorted.
\<close>

definition group_pairs :: "str \<Rightarrow> (str option \<times> str option) list \<Rightarrow> (str \<times> int) list" where
  "group_pairs actividad_sel ps =
     (let keys = dropna (map snd (filter (\<lambda>p. fst p = Some (normalize_str (Some actividad_sel))) ps))
      in map (\<lambda>k. (k, int (length (filter (\<lambda>k'. k' = k) keys)))) (sort (unique keys)))"

definition table_rows :: "str list \<Rightarrow> int list \<Rightarrow> string option list \<Rightarrow> opportunity list" where
  "table_rows names counts cats =
     map (\<lambda>(a, n, c). \<lparr>area = a, n_locales = n, categoria = c\<rparr>) (zip names (zip counts cats))"

section \<open>Sample data\<close>

text \<open>
  The property key of the boundary files, two areas and two activities, as code points;
  a neighbourhood boundary (a polygon), a district boundary (a multi-polygon), a boundary
  whose ring is ragged, and a few business records.
\<close>

definition NOMBRE :: str where
  "NOMBRE = [0x4E, 0x4F, 0x4D, 0x42, 0x52, 0x45]"

definition RETIRO :: str where
  "RETIRO = [0x52, 0x45, 0x54, 0x49, 0x52, 0x4F]"

definition PACIFICO :: str where
  "PACIFICO = [0x50, 0x41, 0x43, 0x49, 0x46, 0x49, 0x43, 0x4F]"

definition PANADERIA :: str where
  "PANADERIA = [0x50, 0x41, 0x4E, 0x41, 0x44, 0x45, 0x52, 0x49, 0x41]"

definition BAR :: str where
  "BAR = [0x42, 0x41, 0x52]"

definition barrio_feature :: "str \<Rightarrow> feature" where
  "barrio_feature name =
     \<lparr>properties = [(NOMBRE, Some name)],
      geometry = Some (Polygon [[[-4, 40], [-3, 40], [-3, 41], [-4, 41]]])\<rparr>"

definition distrito_feature :: "str \<Rightarrow> feature" where
  "distrito_feature name =
     \<lparr>properties = [(NOMBRE, Some name)],
      geometry = Some (MultiPolygon [[[[-4, 40], [0, 40], [0, 42], [-4, 42]]]])\<rparr>"

definition broken_feature :: "str \<Rightarrow> feature" where
  "broken_feature name =
     \<lparr>properties = [(NOMBRE, Some name)], geometry = Some (Polygon [[[-4], [-3, 40]]])\<rparr>"

definition local :: "str \<Rightarrow> str \<Rightarrow> str \<Rightarrow> rat option \<Rightarrow> rat option \<Rightarrow> business" where
  "local epigrafe barrio distrito la lo =
     \<lparr>desc_epigrafe = Some epigrafe, desc_barrio_local = Some barrio,
      desc_distrito_local = Some distrito, lat = la, lon = lo\<rparr>"

definition ex_barrios :: boundary_index where
  "ex_barrios = [(PACIFICO, barrio_feature PACIFICO)]"

definition ex_distritos :: boundary_index where
  "ex_distritos = [(RETIRO, distrito_feature RETIRO)]"

definition ex_broken :: boundary_index where
  "ex_broken = [(RETIRO, broken_feature RETIRO)]"

definition ex_locales :: "business list" where
  "ex_locales = [local PANADERIA PACIFICO RETIRO None None,
                 local PANADERIA RETIRO RETIRO None None,
                 local PANADERIA PACIFICO RETIRO (Some 40) None]"

definition ex_abc :: "business list" where
  "ex_abc = [local PANADERIA [0x43] RETIRO None None,
             local BAR [0x42] RETIRO None None,
             local PANADERIA [0x43] RETIRO None None,
             local BAR [0x41] RETIRO None None,
             local PANADERIA [0x43] RETIRO None None]"

section \<open>The text normalizer is a projection only up to stripping\<close>

lemma upper_filter_nfkd:
  "upper (filter (\<lambda>ch. \<not> combining ch) (nfkd s)) = concat (map norm_char s)"
  by (induction s) (simp_all add: nfkd_def upper_def norm_char_def)

lemma normalize_str_concat: "normalize_str (Some t) = concat (map norm_char (strip t))"
  by (simp add: normalize_str_def upper_filter_nfkd)

lemma table_entries:
  "\<forall>(k, d) \<in> set nfkd_table. 0xA0 \<le> k \<and> k < 0x100 \<and>
      (\<forall>e \<in> set d. combining e \<or> e \<le> 0x7A \<or> e = 0x3BC \<or> e = 0x2044)"
  by (simp add: nfkd_table_def combining_def)

lemma table_upper_half:
  "\<forall>(k, d) \<in> set nfkd_table.
      0xC0 \<le> k \<and> k \<le> 0xDE \<longrightarrow> map_of nfkd_table (k + 0x20) \<noteq> None"
  by (simp add: nfkd_table_def)

lemma table_FF: "map_of nfkd_table 0xFF \<noteq> None"
  by (simp add: nfkd_table_def)

lemma table_key_range:
  assumes "map_of nfkd_table c = Some d"
  shows "0xA0 \<le> c \<and> c < 0x100"
  using table_entries map_of_SomeD [OF assms] by fastforce

lemma table_decomposition:
  assumes "map_of nfkd_table c = Some d" and "e \<in> set d"
  shows "combining e \<or> e \<le> 0x7A \<or> e = 0x3BC \<or> e = 0x2044"
  using table_entries map_of_SomeD [OF assms(1)] assms(2) by fastforce

lemma not_key: "c < 0xA0 \<or> 0x100 \<le> c \<Longrightarrow> map_of nfkd_table c = None"
  using table_key_range [of c] by (cases "map_of nfkd_table c") auto

lemma norm_char_plain:
  assumes "map_of nfkd_table c = None" and "\<not> combining c" and "upper_char c = [c]"
  shows "norm_char c = [c]"
  using assms by (simp add: norm_char_def nfkd_char_def upper_def)

lemma norm_char_low: "e < 0x61 \<or> e = 0x39C \<or> e = 0x2044 \<Longrightarrow> norm_char e = [e]"
  by (rule norm_char_plain) (auto simp: not_key combining_def upper_char_def)

lemma upper_char_base:
  assumes "e \<le> 0x7A \<or> e = 0x3BC \<or> e = 0x2044" and "e' \<in> set (upper_char e)"
  shows "e' < 0x61 \<or> e' = 0x39C \<or> e' = 0x2044"
  using assms by (auto simp: upper_char_def split: if_splits)

text \<open>
  Every character that the normalization of Latin-1 text produces is left alone by a
  second normalization: it has no decomposition, is no combining mark and is its own
  upper case.
\<close>

lemma norm_char_stable:
  assumes "c < 0x100" and "e \<in> set (norm_char c)"
  shows "norm_char e = [e]"
proof (cases "map_of nfkd_table c")
  case (Some d)
  from assms(2) Some obtain b where b: "b \<in> set d" "\<not> combining b" "e \<in> set (upper_char b)"
    by (auto simp: norm_char_def nfkd_char_def upper_def)
  from table_decomposition [OF Some b(1)] b(2)
  have "b \<le> 0x7A \<or> b = 0x3BC \<or> b = 0x2044" by blast
  from upper_char_base [OF this b(3)] show ?thesis by (rule norm_char_low)
next
  case None
  have nc: "\<not> combining c" using assms(1) by (simp add: combining_def)
  with None assms(2) have e: "e \<in> set (upper_char c)"
    by (simp add: norm_char_def nfkd_char_def upper_def)
  consider (lower) "0x61 \<le> c \<and> c \<le> 0x7A" | (micro) "c = 0xB5" | (sharp) "c = 0xDF"
    | (latin) "0xE0 \<le> c \<and> c \<le> 0xFE \<and> c \<noteq> 0xF7" | (yuml) "c = 0xFF"
    | (same) "c < 0x61 \<or> (0x7A < c \<and> c < 0xE0 \<and> c \<noteq> 0xB5 \<and> c \<noteq> 0xDF) \<or> c = 0xF7"
    using assms(1) by linarith
  then show ?thesis
  proof cases
    case lower
    with e have "e < 0x61" by (auto simp: upper_char_def)
    then show ?thesis by (simp add: norm_char_low)
  next
    case micro
    with e have "e = 0x39C" by (simp add: upper_char_def)
    then show ?thesis by (simp add: norm_char_low)
  next
    case sharp
    with e have "e < 0x61" by (auto simp: upper_char_def)
    then show ?thesis by (simp add: norm_char_low)
  next
    case latin
    with e have ec: "e = c - 0x20" by (auto simp: upper_char_def)
    have "map_of nfkd_table e = None"
    proof (cases "map_of nfkd_table e")
      case (Some d)
      from map_of_SomeD [OF Some] table_upper_half
      have "0xC0 \<le> e \<and> e \<le> 0xDE \<longrightarrow> map_of nfkd_table (e + 0x20) \<noteq> None" by fastforce
      moreover from ec latin have "0xC0 \<le> e \<and> e \<le> 0xDE" and "e + 0x20 = c" by auto
      ultimately show ?thesis using None by simp
    qed simp
    moreover from ec latin have "\<not> combining e" "upper_char e = [e]"
      by (auto simp: combining_def upper_char_def)
    ultimately show ?thesis by (rule norm_char_plain)
  next
    case yuml
    with None table_FF show ?thesis by simp
  next
    case same
    then have up: "upper_char c = [c]" by (auto simp: upper_char_def)
    with e have "e = c" by simp
    with None nc up show ?thesis by (simp add: norm_char_plain)
  qed
qed

lemma concat_stable: "\<forall>d \<in> set z. norm_char d = [d] \<Longrightarrow> concat (map norm_char z) = z"
  by (induction z) auto

lemma set_strip: "set (strip s) \<subseteq> set s"
proof
  fix x assume "x \<in> set (strip s)"
  then have "x \<in> set (dropWhile isspace (rev (dropWhile isspace s)))" by (simp add: strip_def)
  then have "x \<in> set (dropWhile isspace s)" using set_dropWhileD by fastforce
  then show "x \<in> set s" by (rule set_dropWhileD)
qed

lemma normalize_twice:
  assumes "\<forall>c \<in> set x. c < 0x100"
  shows "normalize_str (Some (normalize_str (Some x))) = strip (normalize_str (Some x))"
proof -
  let ?y = "normalize_str (Some x)"
  have "\<forall>d \<in> set ?y. norm_char d = [d]"
  proof
    fix d assume "d \<in> set ?y"
    then obtain c where c: "c \<in> set (strip x)" and d: "d \<in> set (norm_char c)"
      by (auto simp: normalize_str_concat)
    from c set_strip have "c \<in> set x" by blast
    with assms have "c < 0x100" by simp
    then show "norm_char d = [d]" using d by (rule norm_char_stable)
  qed
  with set_strip have "\<forall>d \<in> set (strip ?y). norm_char d = [d]" by blast
  then have "concat (map norm_char (strip ?y)) = strip ?y" by (rule concat_stable)
  then show ?thesis by (simp only: normalize_str_concat)
qed

lemmas normalize_eval = normalize_str_def strip_def isspace_def nfkd_def nfkd_char_def
  nfkd_table_def combining_def upper_def upper_char_def

text \<open>
  On Latin-1 text the second normalization does nothing but strip: \<open>normalize_twice\<close>.
  So \<open>normalize_str\<close> fails to be idempotent exactly where its result begins or ends
  with white space, which the early \<open>strip()\<close> was meant to exclude.
\<close>

text \<open>
  C7: \<open>normalize(normalize(x)) = normalize(x)\<close> for every text \<open>x\<close>, and a missing value
  normalizes to the empty text. The second part holds; the first fails in the code for the
  text "A" followed by the acute accent \<open>U+00B4\<close>: \<open>normalize_str\<close> strips before it
  decomposes, the accent decomposes to a space and a combining acute, the combining mark is
  deleted, and the space stays at the end. Normalizing the result "A " again strips it to
  "A". The program normalizes again what it has normalized: \<open>load_data\<close> stores "A " as
  the activity label, the selector offers it, and the filter compares the column with the
  normalization of the selection, "A", so the record is not found under its own activity.
\<close>

theorem normalize_str_not_idempotent:
  "normalize_str None = [] \<and>
   normalize_str (Some [0x41, 0xB4]) = [0x41, 0x20] \<and>
   normalize_str (Some (normalize_str (Some [0x41, 0xB4]))) = [0x41] \<and>
   normalize_str (Some (normalize_str (Some [0x41, 0xB4]))) \<noteq> normalize_str (Some [0x41, 0xB4]) \<and>
   df_plot [local (normalize_str (Some [0x41, 0xB4])) [] [] None None]
     (normalize_str (Some [0x41, 0xB4])) = []"
  by (simp add: normalize_eval df_plot_def local_def)

section \<open>Tiering always yields labels\<close>

lemma set_unique: "set (unique xs) = set xs"
  by (simp add: unique_def)

lemma distinct_unique: "distinct (unique xs)"
  by (simp add: unique_def)

lemma unique_Nil: "unique xs = [] \<longleftrightarrow> xs = []"
  by (simp add: unique_def)

lemma last_remdups: "ys \<noteq> [] \<Longrightarrow> last (remdups ys) = last ys"
  by (induction ys) (auto simp: last_in_set)

lemma hd_unique: "xs \<noteq> [] \<Longrightarrow> hd (unique xs) = hd xs"
  by (simp add: unique_def hd_rev last_remdups last_rev)

lemma length_unique_less: "\<not> distinct xs \<Longrightarrow> length (unique xs) < length xs"
proof -
  assume nd: "\<not> distinct xs"
  have "length (remdups (rev xs)) \<noteq> length (rev xs)"
    using nd by (metis distinct_rev remdups_id_iff_distinct length_remdups_eq)
  with length_remdups_leq [of "rev xs"] show ?thesis by (simp add: unique_def)
qed

lemma sort_Nil: "sort s = [] \<longleftrightarrow> s = []"
  by (metis length_0_conv length_sort)

lemma quantile_0: "s \<noteq> [] \<Longrightarrow> quantile s 0 = of_int (hd (sort s))"
  by (simp add: quantile_def Let_def hd_conv_nth sort_Nil)

lemma quantile_1: "s \<noteq> [] \<Longrightarrow> quantile s 1 = of_int (last (sort s))"
  by (simp add: quantile_def Let_def last_conv_nth sort_Nil)

lemma hd_sort_le: "v \<in> set s \<Longrightarrow> hd (sort s) \<le> v"
proof -
  assume v: "v \<in> set s"
  then have ne: "sort s \<noteq> []" by (auto simp: sort_Nil)
  then obtain y ys where ys: "sort s = y # ys" by (cases "sort s") auto
  have "sorted (sort s)" by simp
  with ys have "\<forall>z \<in> set (y # ys). y \<le> z" by auto
  moreover from v have "v \<in> set (sort s)" by simp
  ultimately show ?thesis using ys by auto
qed

lemma le_last_sort: "v \<in> set s \<Longrightarrow> v \<le> last (sort s)"
proof -
  assume v: "v \<in> set s"
  then have "v \<in> set (sort s)" by simp
  then obtain i where i: "i < length (sort s)" "sort s ! i = v"
    unfolding in_set_conv_nth by blast
  have "sorted (sort s)" by simp
  then have "sort s ! i \<le> sort s ! (length (sort s) - 1)"
    using i(1) by (intro sorted_nth_mono) auto
  moreover from i(1) have "sort s \<noteq> []" by (auto simp: sort_Nil)
  ultimately show ?thesis using i(2) by (simp add: last_conv_nth)
qed

lemma bins_to_cuts_error:
  "bins_to_cuts x bins0 labels = Inl e \<Longrightarrow> bins0 \<noteq> [] \<Longrightarrow> e = ValueError"
  by (auto simp: bins_to_cuts_def Let_def unique_Nil split: if_splits)

lemma takeWhile_shorter: "\<exists>x \<in> set xs. \<not> P x \<Longrightarrow> length (takeWhile P xs) < length xs"
  by (induction xs) auto

text \<open>
  When the binning succeeds, every value between the first edge and some edge gets a
  label: its bin number is neither \<open>0\<close> nor the number of edges.
\<close>

lemma bins_to_cuts_labelled:
  assumes ok: "bins_to_cuts x bins0 labels = Inr r"
    and labels: "labels \<noteq> []"
    and lower: "\<forall>v \<in> set x. hd bins0 \<le> of_int v"
    and upper: "\<forall>v \<in> set x. \<exists>b \<in> set bins0. of_int v \<le> b"
  shows "length r = length x \<and> None \<notin> set r"
proof -
  define bins where "bins = (if length (unique bins0) < length bins0 \<and> length bins0 \<noteq> 2
                              then unique bins0 else bins0)"
  define ident where "ident = (\<lambda>v. if rat_of_int v = hd bins then 1
                                   else searchsorted_left bins (of_int v))"
  from ok have ne: "bins \<noteq> []" and len: "length labels + 1 = length bins"
    and r: "r = map (\<lambda>i. if i = length bins \<or> i = 0 then None else Some (labels ! (i - 1)))
                  (map ident x)"
    by (auto simp: bins_to_cuts_def Let_def bins_def ident_def split: if_splits)
  from ne have ne0: "bins0 \<noteq> []" by (auto simp: bins_def unique_Nil split: if_splits)
  then have hd: "hd bins = hd bins0" and set: "set bins = set bins0"
    by (simp_all add: bins_def hd_unique set_unique)
  from labels len have two: "2 \<le> length bins" by (cases labels) auto
  have "ident v \<noteq> 0 \<and> ident v \<noteq> length bins" if v: "v \<in> set x" for v
  proof (cases "rat_of_int v = hd bins")
    case True
    with two show ?thesis by (simp add: ident_def)
  next
    case False
    with lower v hd have less: "hd bins < of_int v" by fastforce
    from ne obtain b bs where bs: "bins = b # bs" by (cases bins) auto
    with less have pos: "0 < length (takeWhile (\<lambda>b. b < rat_of_int v) bins)" by simp
    from upper v obtain b' where "b' \<in> set bins0" "rat_of_int v \<le> b'" by blast
    with set have "\<exists>b \<in> set bins. \<not> b < rat_of_int v" by (auto simp: not_less)
    then have "length (takeWhile (\<lambda>b. b < rat_of_int v) bins) < length bins"
      by (rule takeWhile_shorter)
    with pos show ?thesis using False by (simp add: ident_def searchsorted_left_def)
  qed
  then have "\<forall>v \<in> set x. ident v \<noteq> 0 \<and> ident v \<noteq> length bins" by blast
  with r show ?thesis by (fastforce simp: image_iff)
qed

lemma quantile_bins_bounds:
  assumes "v \<in> set s" and "q = 0 # q'" and "1 \<in> set q"
  shows "hd (map (quantile s) q) \<le> of_int v"
    and "\<exists>b \<in> set (map (quantile s) q). of_int v \<le> b"
proof -
  from assms(1) have ne: "s \<noteq> []" by auto
  from assms(2) ne have "hd (map (quantile s) q) = of_int (hd (sort s))"
    by (simp add: quantile_0)
  with hd_sort_le [OF assms(1)] show "hd (map (quantile s) q) \<le> of_int v" by simp
  from assms(3) have "quantile s 1 \<in> set (map (quantile s) q)" by auto
  moreover have "rat_of_int v \<le> quantile s 1"
    using le_last_sort [OF assms(1)] ne by (simp add: quantile_1)
  ultimately show "\<exists>b \<in> set (map (quantile s) q). of_int v \<le> b" by blast
qed

lemma qcut_result:
  assumes "q = 0 # q'" and "1 \<in> set q" and "labels \<noteq> []"
  shows "qcut s q labels = Inl ValueError \<or>
         (\<exists>r. qcut s q labels = Inr r \<and> length r = length s \<and> None \<notin> set r)"
proof (cases "qcut s q labels")
  case (Inl e)
  with assms(1) have "e = ValueError"
    unfolding qcut_def by (auto dest: bins_to_cuts_error)
  with Inl show ?thesis by simp
next
  case (Inr r)
  then have "bins_to_cuts s (map (quantile s) q) labels = Inr r" by (simp add: qcut_def)
  from bins_to_cuts_labelled [OF this assms(3)] quantile_bins_bounds [OF _ assms(1,2)]
  have "length r = length s \<and> None \<notin> set r" by blast
  with Inr show ?thesis by simp
qed

lemma linspace01_3: "linspace01 3 = [0, 1 / 3, 2 / 3, 1]"
  by (simp add: linspace01_def upt_rec)

lemma median_split_labelled:
  "length (median_split s) = length s \<and> None \<notin> set (median_split s)"
  by (auto simp: median_split_def Let_def)

lemma tertile_split_labelled:
  "length (tertile_split s) = length s \<and> None \<notin> set (tertile_split s)"
  by (auto simp: tertile_split_def Let_def)

lemma fallback_labels_total:
  assumes "2 \<le> nunique s"
  shows "\<exists>r. fallback_labels s = Inr r \<and> length r = length s \<and> None \<notin> set r"
proof -
  consider "nunique s = 2" | "nunique s = 3" | "4 \<le> nunique s" using assms by linarith
  then show ?thesis
  proof cases
    case 1
    then show ?thesis by (simp add: fallback_labels_def median_split_labelled)
  next
    case 2
    then show ?thesis by (simp add: fallback_labels_def tertile_split_labelled)
  next
    case 3
    then have m: "min (nunique s) 3 = 3" "min (nunique s - 1) 3 = 3" by simp_all
    have "qcut s (linspace01 3) [''Baja'', ''Media'', ''Alta''] = Inl ValueError \<or>
          (\<exists>r. qcut s (linspace01 3) [''Baja'', ''Media'', ''Alta''] = Inr r \<and>
               length r = length s \<and> None \<notin> set r)"
      by (rule qcut_result [where q' = "[1 / 3, 2 / 3, 1]"]) (simp_all add: linspace01_3)
    with 3 m show ?thesis
      by (auto simp: fallback_labels_def Let_def median_split_labelled)
  qed
qed

lemma quantile_labels_total:
  "\<exists>r. quantile_labels s = Inr r \<and> length r = length s \<and> None \<notin> set r"
proof (cases "nunique s \<le> 1")
  case True
  then show ?thesis by (simp add: quantile_labels_def)
next
  case False
  then have two: "2 \<le> nunique s" by simp
  have "qcut s q_default (take (length q_default - 1) labels_default) = Inl ValueError \<or>
        (\<exists>r. qcut s q_default (take (length q_default - 1) labels_default) = Inr r \<and>
             length r = length s \<and> None \<notin> set r)"
    by (rule qcut_result [where q' = "[1 / 4, 1 / 2, 3 / 4, 1]"])
       (simp_all add: q_default_def labels_default_def)
  with False fallback_labels_total [OF two] show ?thesis
    by (auto simp: quantile_labels_def)
qed

text \<open>Evaluating a tiering on a concrete series.\<close>

lemma floor_rat_numeral_div: "\<lfloor>(numeral a :: rat) / numeral b\<rfloor> = numeral a div numeral b"
  by (metis floor_divide_of_int_eq of_int_numeral)

lemma floor_rat_one_div: "\<lfloor>(1 :: rat) / numeral b\<rfloor> = 1 div numeral b"
  by (metis floor_divide_of_int_eq of_int_numeral of_int_1)

lemmas tier_eval = quantile_labels_def fallback_labels_def qcut_def bins_to_cuts_def quantile_def
  median_def median_split_def tertile_split_def nunique_def unique_def q_default_def
  labels_default_def searchsorted_left_def linspace01_def Let_def
  floor_rat_numeral_div floor_rat_one_div

text \<open>
  C2: for every count series (empty or not), \<open>quantile_labels\<close> returns, raising nothing,
  one label per row, none of them missing; and when the series has at most one distinct
  value, every label is "Sin datos".
\<close>

theorem quantile_labels_totality:
  "(\<exists>r. quantile_labels s = Inr r \<and> length r = length s \<and> None \<notin> set r) \<and>
   (nunique s \<le> 1 \<longrightarrow> quantile_labels s = Inr (replicate (length s) (Some ''Sin datos'')))"
  using quantile_labels_total [of s] by (simp add: quantile_labels_def)

theorem quantile_labels_totality_witness:
  "nunique [4, 4, 4] \<le> 1 \<and>
   quantile_labels [4, 4, 4] = Inr [Some ''Sin datos'', Some ''Sin datos'', Some ''Sin datos'']"
proof -
  have h: "nunique [4, 4, 4] \<le> 1" by (simp add: nunique_def unique_def)
  with quantile_labels_totality [of "[4, 4, 4]"] show ?thesis
    by (simp add: numeral_3_eq_3)
qed

section \<open>Coinciding quartiles send the tiering to its fallback\<close>

lemma qcut_duplicate_edges:
  assumes "\<not> distinct (map (quantile s) q_default)"
  shows "qcut s q_default (take (length q_default - 1) labels_default) = Inl ValueError"
proof -
  let ?bins0 = "map (quantile s) q_default"
  have five: "length ?bins0 = 5" by (simp add: q_default_def)
  from assms have "length (unique ?bins0) < length ?bins0" by (rule length_unique_less)
  moreover have "unique ?bins0 \<noteq> []" by (simp add: unique_Nil q_default_def)
  ultimately show ?thesis
    using five by (simp add: qcut_def bins_to_cuts_def Let_def labels_default_def)
qed

text \<open>
  C1, as stated: when quartile boundaries coincide, the labelling comes from the merged
  quartile split and no error path is entered. For the counts \<open>0, 0, 0, 5\<close> the quartile
  edges are \<open>0, 0, 0, 5/4, 5\<close>; merging leaves three edges, two bins, for the four labels
  passed, so \<open>qcut\<close> raises \<open>ValueError\<close>, and the labels returned are those of the
  median split of the \<open>except\<close> branch.
\<close>

theorem quartile_split_raises_on_duplicates:
  "2 \<le> nunique [0, 0, 0, 5] \<and>
   map (quantile [0, 0, 0, 5]) q_default = [0, 0, 0, 5 / 4, 5] \<and>
   qcut [0, 0, 0, 5] q_default (take (length q_default - 1) labels_default) = Inl ValueError \<and>
   quantile_labels [0, 0, 0, 5] = Inr (median_split [0, 0, 0, 5]) \<and>
   median_split [0, 0, 0, 5] = [Some ''Baja'', Some ''Baja'', Some ''Baja'', Some ''Alta'']"
  by (simp add: tier_eval)

text \<open>
  C1, amended: for every count series with at least two distinct values whose quartile
  boundaries coincide, the four-label quartile split raises \<open>ValueError\<close> inside
  \<open>quantile_labels\<close> (the merged edges leave fewer bins than labels); the error is caught
  there, and the labelling returned is the one of the fallback ladder, one label per row
  and none missing.
\<close>

theorem quantile_labels_duplicate_quartiles:
  assumes "2 \<le> nunique s" and "\<not> distinct (map (quantile s) q_default)"
  shows "qcut s q_default (take (length q_default - 1) labels_default) = Inl ValueError \<and>
         quantile_labels s = fallback_labels s \<and>
         (\<exists>r. quantile_labels s = Inr r \<and> length r = length s \<and> None \<notin> set r)"
  using assms(1) qcut_duplicate_edges [OF assms(2)] quantile_labels_total [of s]
  by (simp add: quantile_labels_def)

theorem quantile_labels_duplicate_quartiles_witness:
  "2 \<le> nunique [0, 0, 1, 2] \<and> \<not> distinct (map (quantile [0, 0, 1, 2]) q_default) \<and>
   quantile_labels [0, 0, 1, 2] = fallback_labels [0, 0, 1, 2] \<and>
   fallback_labels [0, 0, 1, 2] =
     Inr [Some ''Muy baja'', Some ''Muy baja'', Some ''Baja'', Some ''Media'']"
proof -
  have h1: "2 \<le> nunique [0, 0, 1, 2]" by (simp add: nunique_def unique_def)
  have h2: "\<not> distinct (map (quantile [0, 0, 1, 2]) q_default)" by (simp add: tier_eval)
  have "fallback_labels [0, 0, 1, 2] =
          Inr [Some ''Muy baja'', Some ''Muy baja'', Some ''Baja'', Some ''Media'']"
    by (simp add: tier_eval)
  with quantile_labels_duplicate_quartiles [OF h1 h2] h1 h2 show ?thesis by simp
qed

section \<open>Coordinate completion, row by row\<close>

text \<open>
  The column operations of a pass (\<open>df[mask]\<close>, \<open>np.where\<close>, \<open>df.loc[mask, col] = ...\<close>)
  amount to \<open>fill_row\<close> on every row, and the guards around the two passes only skip
  work that would change nothing.
\<close>

lemma select_map: "select (map m xs) (map h xs) = map h (filter m xs)"
  by (induction xs) (simp_all add: select_def)

lemma select_same: "select (map m xs) xs = filter m xs"
  using select_map [of m xs "\<lambda>x. x"] by simp

lemma np_where_map:
  "np_where (map p ys) (map a ys) (map b ys) = map (\<lambda>y. if p y then a y else b y) ys"
  by (induction ys) (simp_all add: np_where_def)

lemma loc_assign_map:
  "loc_assign (map m xs) (map g (filter m xs)) (map c xs) = map (\<lambda>x. if m x then g x else c x) xs"
  by (induction xs) simp_all

lemma zip_columns:
  "map (\<lambda>(r, la, lo). r\<lparr>lat := la, lon := lo\<rparr>) (zip df (zip (map a df) (map b df)))
     = map (\<lambda>r. r\<lparr>lat := a r, lon := b r\<rparr>) df"
  by (induction df) simp_all

lemma fill_row_columns:
  "fill_row column index r =
     r\<lparr>lat := (if lat r = None \<or> lon r = None
                then (if fst (lookup_centroid index (column r)) \<noteq> None \<and>
                         snd (lookup_centroid index (column r)) \<noteq> None
                      then fst (lookup_centroid index (column r)) else lat r)
                else lat r),
        lon := (if lat r = None \<or> lon r = None
                then (if fst (lookup_centroid index (column r)) \<noteq> None \<and>
                         snd (lookup_centroid index (column r)) \<noteq> None
                      then snd (lookup_centroid index (column r)) else lon r)
                else lon r)\<rparr>"
proof (cases "lookup_centroid index (column r)")
  case (Pair a b)
  show ?thesis
  proof (cases "lat r = None \<or> lon r = None")
    case True
    then show ?thesis
      unfolding fill_row_def Pair by (cases a; cases b) auto
  next
    case False
    then show ?thesis
      unfolding fill_row_def by auto
  qed
qed

lemma fill_pass_rowwise: "fill_pass column index df = map (fill_row column index) df"
proof -
  let ?m = "\<lambda>r. lat r = None \<or> lon r = None"
  let ?f = "\<lambda>r. lookup_centroid index (column r)"
  let ?ok = "\<lambda>r. fst (?f r) \<noteq> None \<and> snd (?f r) \<noteq> None"
  let ?rows = "filter ?m df"
  have mask: "mask_centroid df = map ?m df" by (simp add: mask_centroid_def)
  have filled: "map (\<lambda>(la, lo). la \<noteq> None \<and> lo \<noteq> None) (map ?f ?rows) = map ?ok ?rows"
    by (simp add: case_prod_beta)
  have lat_col:
    "loc_assign (map ?m df)
       (np_where (map ?ok ?rows) (map fst (map ?f ?rows)) (select (map ?m df) (map lat df)))
       (map lat df)
     = map (\<lambda>r. if ?m r then (if ?ok r then fst (?f r) else lat r) else lat r) df"
  proof -
    have "np_where (map ?ok ?rows) (map fst (map ?f ?rows)) (select (map ?m df) (map lat df))
          = map (\<lambda>r. if ?ok r then fst (?f r) else lat r) ?rows"
      using np_where_map [of ?ok ?rows "\<lambda>r. fst (?f r)" lat] by (simp add: select_map comp_def)
    then show ?thesis by (simp only: loc_assign_map)
  qed
  have lon_col:
    "loc_assign (map ?m df)
       (np_where (map ?ok ?rows) (map snd (map ?f ?rows)) (select (map ?m df) (map lon df)))
       (map lon df)
     = map (\<lambda>r. if ?m r then (if ?ok r then snd (?f r) else lon r) else lon r) df"
  proof -
    have "np_where (map ?ok ?rows) (map snd (map ?f ?rows)) (select (map ?m df) (map lon df))
          = map (\<lambda>r. if ?ok r then snd (?f r) else lon r) ?rows"
      using np_where_map [of ?ok ?rows "\<lambda>r. snd (?f r)" lon] by (simp add: select_map comp_def)
    then show ?thesis by (simp only: loc_assign_map)
  qed
  have "fill_pass column index df
        = map (\<lambda>r. r\<lparr>lat := (if ?m r then (if ?ok r then fst (?f r) else lat r) else lat r),
                     lon := (if ?m r then (if ?ok r then snd (?f r) else lon r) else lon r)\<rparr>) df"
    unfolding fill_pass_def Let_def mask select_same filled lat_col lon_col
    by (rule zip_columns)
  also have "\<dots> = map (fill_row column index) df"
    by (simp only: fill_row_columns [symmetric])
  finally show ?thesis .
qed

lemma fill_row_unmasked: "lat r \<noteq> None \<Longrightarrow> lon r \<noteq> None \<Longrightarrow> fill_row column index r = r"
  by (auto simp: fill_row_def)

lemma fill_row_empty_index: "fill_row column [] r = r"
  by (simp add: fill_row_def lookup_centroid_def)

lemma fill_rows_unmasked:
  "\<not> (\<exists>m \<in> set (mask_centroid df). m) \<Longrightarrow> map (fill_row column index) df = df"
  by (induction df) (auto simp: mask_centroid_def fill_row_def)

lemma fill_tier_falsy: "\<not> nonempty_index index \<Longrightarrow> fill_tier column index = (\<lambda>r. r)"
  by (cases index) (auto simp: fill_tier_def nonempty_index_def fill_row_empty_index)

lemma fill_tier_truthy:
  "nonempty_index index \<Longrightarrow> fill_tier column index = fill_row column (the index)"
  by (cases index) (auto simp: fill_tier_def nonempty_index_def)

lemma fill_tiers_unmasked:
  assumes "\<not> (\<exists>m \<in> set (mask_centroid df). m)"
  shows "map (fill_tier column index) df = df"
proof (cases "nonempty_index index")
  case True
  then show ?thesis using fill_rows_unmasked [OF assms] by (simp add: fill_tier_truthy)
next
  case False
  then show ?thesis by (simp add: fill_tier_falsy)
qed

lemma complete_coordinates_rowwise:
  "complete_coordinates barrios_index distritos_index df
     = map (\<lambda>r. fill_tier desc_distrito_local distritos_index
                   (fill_tier desc_barrio_local barrios_index r)) df"
proof -
  let ?df1 = "map (fill_tier desc_barrio_local barrios_index) df"
  have goal: "map (\<lambda>r. fill_tier desc_distrito_local distritos_index
                   (fill_tier desc_barrio_local barrios_index r)) df
              = map (fill_tier desc_distrito_local distritos_index) ?df1" by simp
  show ?thesis
  proof (cases "(\<exists>m \<in> set (mask_centroid df). m) \<and>
                (nonempty_index barrios_index \<or> nonempty_index distritos_index)")
    case True
    have df1: "(if nonempty_index barrios_index
                then fill_pass desc_barrio_local (the barrios_index) df else df) = ?df1"
      by (simp add: fill_pass_rowwise fill_tier_truthy fill_tier_falsy)
    show ?thesis
    proof (cases "(\<exists>m \<in> set (mask_centroid ?df1). m) \<and> nonempty_index distritos_index")
      case t: True
      then have "fill_pass desc_distrito_local (the distritos_index) ?df1
                 = map (fill_tier desc_distrito_local distritos_index) ?df1"
        by (simp add: fill_pass_rowwise fill_tier_truthy)
      with True t show ?thesis
        unfolding complete_coordinates_def Let_def df1 goal by simp
    next
      case False
      then have "map (fill_tier desc_distrito_local distritos_index) ?df1 = ?df1"
        using fill_tiers_unmasked [of ?df1] by (auto simp: fill_tier_falsy)
      with True False show ?thesis
        unfolding complete_coordinates_def Let_def df1 goal by auto
    qed
  next
    case False
    then have "map (fill_tier desc_barrio_local barrios_index) df = df"
      using fill_tiers_unmasked [of df] by (auto simp: fill_tier_falsy)
    moreover from False have "map (fill_tier desc_distrito_local distritos_index) df = df"
      using fill_tiers_unmasked [of df] by (auto simp: fill_tier_falsy)
    moreover from False have "complete_coordinates barrios_index distritos_index df = df"
      unfolding complete_coordinates_def by (simp only: if_False)
    ultimately show ?thesis unfolding goal by simp
  qed
qed

lemmas centroid_eval = feature_centroid_def ring_centroid_def mean_def
  barrio_feature_def distrito_feature_def broken_feature_def

lemmas names_eval = NOMBRE_def RETIRO_def PACIFICO_def PANADERIA_def

lemma nth_complete:
  "i < length df \<Longrightarrow> complete_coordinates bi di df ! i
     = fill_tier desc_distrito_local di (fill_tier desc_barrio_local bi (df ! i))"
  by (simp add: complete_coordinates_rowwise)

lemma lookup_centroid_found:
  "normalize_str v \<noteq> [] \<Longrightarrow> map_of index (normalize_str v) = Some f
     \<Longrightarrow> lookup_centroid index v = feature_centroid f"
  by (simp add: lookup_centroid_def)

lemma fill_row_valid:
  "lat r = None \<or> lon r = None \<Longrightarrow> lookup_centroid index (column r) = (Some la, Some lo)
     \<Longrightarrow> fill_row column index r = r\<lparr>lat := Some la, lon := Some lo\<rparr>"
  by (simp add: fill_row_def)

lemma fill_row_invalid:
  "\<not> valid_centroid (lookup_centroid index (column r)) \<Longrightarrow> fill_row column index r = r"
  by (cases "lookup_centroid index (column r)")
     (auto simp: fill_row_def valid_centroid_def split: option.splits)

lemma fill_tier_invalid:
  "\<not> valid_centroid (tier_centroid index (column r)) \<Longrightarrow> fill_tier column index r = r"
  by (cases index) (simp_all add: fill_tier_def tier_centroid_def fill_row_invalid)

lemma fill_tier_filled:
  "lat r \<noteq> None \<Longrightarrow> lon r \<noteq> None \<Longrightarrow> fill_tier column index r = r"
  by (cases index) (simp_all add: fill_tier_def fill_row_unmasked)

lemmas completion_eval = normalize_eval names_eval centroid_eval lookup_centroid_def
  tier_centroid_def valid_centroid_def ex_barrios_def ex_distritos_def ex_broken_def
  ex_locales_def local_def

section \<open>The neighbourhood centroid comes first\<close>

text \<open>
  C5, as stated: every record missing a coordinate whose normalized neighbourhood name maps
  to a boundary with a valid centroid is filled with that centroid. The pass looks a name up
  only \<open>if barrio and barrio in barrios_index\<close>, and the empty name is false in that
  condition. A boundary file whose feature is named by a single space gives an index with
  the empty name as key; a record without a neighbourhood normalizes to the empty name,
  which maps to that boundary, whose centroid is valid; yet the record stays as it was.
\<close>

theorem empty_neighbourhood_name_not_filled:
  "load_geojson (Map.empty(''assets/barrios_madrid.geojson'' \<mapsto>
                   FeatureCollection [barrio_feature [0x20]]))
     ''assets/barrios_madrid.geojson'' NOMBRE
     = Inr (Some [barrio_feature [0x20]], Some [([], barrio_feature [0x20])]) \<and>
   lat (local PANADERIA [] [] None None) = None \<and>
   map_of [([], barrio_feature [0x20])]
     (normalize_str (desc_barrio_local (local PANADERIA [] [] None None)))
     = Some (barrio_feature [0x20]) \<and>
   feature_centroid (barrio_feature [0x20]) = (Some (81 / 2), Some (- (7 / 2))) \<and>
   complete_coordinates (Some [([], barrio_feature [0x20])]) None
     [local PANADERIA [] [] None None] = [local PANADERIA [] [] None None]"
  by (simp add: load_geojson_def add_feature_def feature_name_def py_or_def truthy_def
      dict_get_def lower_def lower_char_def completion_eval complete_coordinates_rowwise
      fill_tier_def fill_row_def)

text \<open>
  C5, amended: a record missing latitude or longitude whose normalized neighbourhood name is
  not empty and maps to a boundary with a valid centroid ends with exactly that centroid,
  whatever the district index holds; and a record missing a coordinate that the
  neighbourhood tier does not fill (no index, no match or no valid centroid) and whose
  normalized district name is not empty and maps to a boundary with a valid centroid ends
  with the district centroid.
\<close>

theorem coordinate_fallback_order:
  assumes "i < length df" and "lat (df ! i) = None \<or> lon (df ! i) = None"
  shows "(normalize_str (desc_barrio_local (df ! i)) \<noteq> [] \<and>
          map_of bi (normalize_str (desc_barrio_local (df ! i))) = Some fb \<and>
          feature_centroid fb = (Some la, Some lo)
          \<longrightarrow> complete_coordinates (Some bi) distritos_index df ! i
                = (df ! i)\<lparr>lat := Some la, lon := Some lo\<rparr>) \<and>
         (\<not> valid_centroid (tier_centroid barrios_index (desc_barrio_local (df ! i))) \<and>
          normalize_str (desc_distrito_local (df ! i)) \<noteq> [] \<and>
          map_of di (normalize_str (desc_distrito_local (df ! i))) = Some fd \<and>
          feature_centroid fd = (Some la', Some lo')
          \<longrightarrow> complete_coordinates barrios_index (Some di) df ! i
                = (df ! i)\<lparr>lat := Some la', lon := Some lo'\<rparr>)"
proof (intro conjI impI)
  assume b: "normalize_str (desc_barrio_local (df ! i)) \<noteq> [] \<and>
          map_of bi (normalize_str (desc_barrio_local (df ! i))) = Some fb \<and>
          feature_centroid fb = (Some la, Some lo)"
  then have "lookup_centroid bi (desc_barrio_local (df ! i)) = (Some la, Some lo)"
    by (simp add: lookup_centroid_found)
  with assms(2) have "fill_tier desc_barrio_local (Some bi) (df ! i)
                      = (df ! i)\<lparr>lat := Some la, lon := Some lo\<rparr>"
    by (simp add: fill_tier_def fill_row_valid)
  then show "complete_coordinates (Some bi) distritos_index df ! i
             = (df ! i)\<lparr>lat := Some la, lon := Some lo\<rparr>"
    using assms(1) by (simp add: nth_complete fill_tier_filled)
next
  assume d: "\<not> valid_centroid (tier_centroid barrios_index (desc_barrio_local (df ! i))) \<and>
          normalize_str (desc_distrito_local (df ! i)) \<noteq> [] \<and>
          map_of di (normalize_str (desc_distrito_local (df ! i))) = Some fd \<and>
          feature_centroid fd = (Some la', Some lo')"
  then have "lookup_centroid di (desc_distrito_local (df ! i)) = (Some la', Some lo')"
    by (simp add: lookup_centroid_found)
  with assms(2) have "fill_tier desc_distrito_local (Some di) (df ! i)
                      = (df ! i)\<lparr>lat := Some la', lon := Some lo'\<rparr>"
    by (simp add: fill_tier_def fill_row_valid)
  with d show "complete_coordinates barrios_index (Some di) df ! i
             = (df ! i)\<lparr>lat := Some la', lon := Some lo'\<rparr>"
    using assms(1) by (simp add: nth_complete fill_tier_invalid)
qed

theorem coordinate_fallback_order_witness:
  "complete_coordinates (Some ex_barrios) (Some ex_distritos) ex_locales ! 0
     = (ex_locales ! 0)\<lparr>lat := Some (81 / 2), lon := Some (- (7 / 2))\<rparr> \<and>
   feature_centroid (distrito_feature RETIRO) = (Some 41, Some (- 2)) \<and>
   complete_coordinates (Some ex_barrios) (Some ex_distritos) ex_locales ! 1
     = (ex_locales ! 1)\<lparr>lat := Some 41, lon := Some (- 2)\<rparr>"
proof -
  have len: "0 < length ex_locales" "1 < length ex_locales" by (simp_all add: ex_locales_def)
  have m0: "lat (ex_locales ! 0) = None \<or> lon (ex_locales ! 0) = None"
    and m1: "lat (ex_locales ! 1) = None \<or> lon (ex_locales ! 1) = None"
    by (simp_all add: ex_locales_def local_def)
  have b0: "normalize_str (desc_barrio_local (ex_locales ! 0)) \<noteq> [] \<and>
            map_of ex_barrios (normalize_str (desc_barrio_local (ex_locales ! 0)))
              = Some (barrio_feature PACIFICO) \<and>
            feature_centroid (barrio_feature PACIFICO) = (Some (81 / 2), Some (- (7 / 2)))"
    by (simp add: completion_eval)
  have d1: "\<not> valid_centroid (tier_centroid (Some ex_barrios) (desc_barrio_local (ex_locales ! 1))) \<and>
            normalize_str (desc_distrito_local (ex_locales ! 1)) \<noteq> [] \<and>
            map_of ex_distritos (normalize_str (desc_distrito_local (ex_locales ! 1)))
              = Some (distrito_feature RETIRO) \<and>
            feature_centroid (distrito_feature RETIRO) = (Some 41, Some (- 2))"
    by (simp add: completion_eval)
  from coordinate_fallback_order [OF len(1) m0, where bi = ex_barrios and distritos_index = "Some ex_distritos"
      and fb = "barrio_feature PACIFICO" and la = "81 / 2" and lo = "- (7 / 2)"] b0
  have "complete_coordinates (Some ex_barrios) (Some ex_distritos) ex_locales ! 0
          = (ex_locales ! 0)\<lparr>lat := Some (81 / 2), lon := Some (- (7 / 2))\<rparr>" by blast
  moreover
  from coordinate_fallback_order [OF len(2) m1, where barrios_index = "Some ex_barrios" and di = ex_distritos
      and fd = "distrito_feature RETIRO" and la' = 41 and lo' = "- 2"] d1
  have "complete_coordinates (Some ex_barrios) (Some ex_distritos) ex_locales ! 1
          = (ex_locales ! 1)\<lparr>lat := Some 41, lon := Some (- 2)\<rparr>" by blast
  ultimately show ?thesis using d1 by blast
qed

section \<open>An undefined centroid is never written\<close>


lemma fill_tier_barrio_kept:
  "desc_distrito_local (fill_tier desc_barrio_local index r) = desc_distrito_local r"
  by (cases index) (simp_all add: fill_tier_def fill_row_columns)





section \<open>Both coordinates are overwritten together\<close>

text \<open>
  C10: for a record with exactly one of latitude and longitude defined whose area lookup
  gives a valid centroid, a pass replaces both coordinates by the centroid's, the defined
  one included; and when the lookup in the neighbourhood tier is the valid one, the
  completion as a whole leaves the record with the neighbourhood centroid.
\<close>

theorem completion_overwrites_both:
  assumes "i < length df" and "(lat (df ! i) = None) \<noteq> (lon (df ! i) = None)"
  shows "(lookup_centroid index (column (df ! i)) = (Some la, Some lo)
          \<longrightarrow> fill_pass column index df ! i = (df ! i)\<lparr>lat := Some la, lon := Some lo\<rparr>) \<and>
         (tier_centroid barrios_index (desc_barrio_local (df ! i)) = (Some la, Some lo)
          \<longrightarrow> complete_coordinates barrios_index distritos_index df ! i
                = (df ! i)\<lparr>lat := Some la, lon := Some lo\<rparr>)"
proof -
  from assms(2) have m: "lat (df ! i) = None \<or> lon (df ! i) = None" by auto
  show ?thesis
  proof (intro conjI impI)
    assume "lookup_centroid index (column (df ! i)) = (Some la, Some lo)"
    with m assms(1) show "fill_pass column index df ! i = (df ! i)\<lparr>lat := Some la, lon := Some lo\<rparr>"
      by (simp add: fill_pass_rowwise fill_row_valid)
  next
    assume t: "tier_centroid barrios_index (desc_barrio_local (df ! i)) = (Some la, Some lo)"
    then obtain bi where bi: "barrios_index = Some bi"
      and l: "lookup_centroid bi (desc_barrio_local (df ! i)) = (Some la, Some lo)"
      by (cases barrios_index) (auto simp: tier_centroid_def)
    from m l have "fill_tier desc_barrio_local barrios_index (df ! i)
                   = (df ! i)\<lparr>lat := Some la, lon := Some lo\<rparr>"
      by (simp add: bi fill_tier_def fill_row_valid)
    then show "complete_coordinates barrios_index distritos_index df ! i
               = (df ! i)\<lparr>lat := Some la, lon := Some lo\<rparr>"
      using assms(1) by (simp add: nth_complete fill_tier_filled)
  qed
qed

theorem completion_overwrites_both_witness:
  "lat (ex_locales ! 2) = Some 40 \<and> lon (ex_locales ! 2) = None \<and>
   fill_pass desc_barrio_local ex_barrios ex_locales ! 2
     = (ex_locales ! 2)\<lparr>lat := Some (81 / 2), lon := Some (- (7 / 2))\<rparr> \<and>
   complete_coordinates (Some ex_barrios) (Some ex_distritos) ex_locales ! 2
     = (ex_locales ! 2)\<lparr>lat := Some (81 / 2), lon := Some (- (7 / 2))\<rparr>"
proof -
  have len: "2 < length ex_locales" by (simp add: ex_locales_def)
  have c: "lat (ex_locales ! 2) = Some 40 \<and> lon (ex_locales ! 2) = None"
    by (simp add: ex_locales_def local_def)
  then have one: "(lat (ex_locales ! 2) = None) \<noteq> (lon (ex_locales ! 2) = None)" by simp
  have h1: "lookup_centroid ex_barrios (desc_barrio_local (ex_locales ! 2))
              = (Some (81 / 2), Some (- (7 / 2)))"
    by (simp add: completion_eval)
  then have h2: "tier_centroid (Some ex_barrios) (desc_barrio_local (ex_locales ! 2))
              = (Some (81 / 2), Some (- (7 / 2)))"
    by (simp add: tier_centroid_def)
  from completion_overwrites_both [OF len one, of ex_barrios desc_barrio_local "81 / 2"
      "- (7 / 2)" "Some ex_barrios" "Some ex_distritos"] c h1 h2
  show ?thesis by blast
qed

section \<open>Counts per area\<close>

lemma groupby_as_pairs:
  "groupby_size column (df_plot df actividad_sel)
     = group_pairs actividad_sel (map (\<lambda>r. (desc_epigrafe r, column r)) df)"
  by (simp add: groupby_size_def df_plot_def group_pairs_def filter_map comp_def)

lemma erased_columns:
  assumes "map erase_coordinates df1 = map erase_coordinates df2"
  shows "map (\<lambda>r. (desc_epigrafe r, column (erase_coordinates r))) df1
         = map (\<lambda>r. (desc_epigrafe r, column (erase_coordinates r))) df2"
proof -
  have "map (\<lambda>r. (desc_epigrafe r, column r)) (map erase_coordinates df1)
        = map (\<lambda>r. (desc_epigrafe r, column r)) (map erase_coordinates df2)"
    using assms by simp
  then show ?thesis by (simp add: comp_def erase_coordinates_def)
qed

lemma fill_row_columns_kept:
  "desc_epigrafe (fill_row column index r) = desc_epigrafe r \<and>
   desc_barrio_local (fill_row column index r) = desc_barrio_local r \<and>
   desc_distrito_local (fill_row column index r) = desc_distrito_local r"
  by (simp add: fill_row_columns)

lemma fill_tier_columns_kept:
  "desc_epigrafe (fill_tier column index r) = desc_epigrafe r \<and>
   desc_barrio_local (fill_tier column index r) = desc_barrio_local r \<and>
   desc_distrito_local (fill_tier column index r) = desc_distrito_local r"
  by (cases index) (simp_all add: fill_tier_def fill_row_columns_kept)

lemma dropna_simps:
  "dropna [] = []" "dropna (None # ks) = dropna ks" "dropna (Some k # ks) = k # dropna ks"
  by (simp_all add: dropna_def)

lemma set_dropna: "set (dropna ks) = {a. Some a \<in> set ks}"
proof (induction ks)
  case (Cons k ks)
  then show ?case by (cases k) (auto simp: dropna_simps)
qed (simp add: dropna_simps)

lemma count_dropna:
  "length (filter (\<lambda>k'. k' = a) (dropna (map column rows)))
     = length (filter (\<lambda>r. column r = Some a) rows)"
proof (induction rows)
  case (Cons r rows)
  then show ?case by (cases "column r") (auto simp: dropna_simps)
qed (simp add: dropna_simps)

lemma groupby_size_count:
  "map_of (groupby_size column (df_plot df actividad_sel)) a
     = (if \<exists>r \<in> set df. desc_epigrafe r = Some (normalize_str (Some actividad_sel)) \<and> column r = Some a
        then Some (matching df actividad_sel column a) else None)"
proof -
  let ?rows = "df_plot df actividad_sel"
  let ?keys = "dropna (map column ?rows)"
  have count: "int (length (filter (\<lambda>k'. k' = a) ?keys)) = matching df actividad_sel column a"
    by (simp add: count_dropna df_plot_def matching_def conj_commute)
  have mem: "a \<in> set (sort (unique ?keys)) \<longleftrightarrow>
             (\<exists>r \<in> set df. desc_epigrafe r = Some (normalize_str (Some actividad_sel)) \<and> column r = Some a)"
    by (auto simp: set_unique set_dropna df_plot_def image_iff)
  have "map_of (map (\<lambda>k. (k, int (length (filter (\<lambda>k'. k' = k) ?keys)))) (sort (unique ?keys))) a
        = (if a \<in> set (sort (unique ?keys)) then Some (int (length (filter (\<lambda>k'. k' = a) ?keys))) else None)"
    by (simp add: map_of_map_restrict restrict_map_def)
  then show ?thesis unfolding groupby_size_def Let_def count mem .
qed

lemma groupby_size_keys: "distinct (map fst (groupby_size column rows))"
  by (simp add: groupby_size_def Let_def comp_def distinct_unique)

lemma filter_key_lookup:
  "distinct (map fst rs) \<Longrightarrow>
     filter (\<lambda>(k, n). k = a) rs = (case map_of rs a of None \<Rightarrow> [] | Some n \<Rightarrow> [(a, n)])"
proof (induction rs)
  case (Cons p rs)
  obtain k n where p: "p = (k, n)" by (cases p)
  show ?case
  proof (cases "k = a")
    case True
    with Cons.prems p have "a \<notin> fst ` set rs" by simp
    then have "map_of rs a = None" by (simp add: map_of_eq_None_iff)
    with Cons p True show ?thesis by simp
  next
    case False
    with Cons p show ?thesis by simp
  qed
qed simp

lemma merge_left_lookup:
  assumes "distinct (map fst rs)"
  shows "merge_left ls rs = map (\<lambda>a. (a, map_of rs a)) ls"
proof -
  have "(case filter (\<lambda>(k, n). k = a) rs of [] \<Rightarrow> [(a, None)]
           | ms \<Rightarrow> map (\<lambda>(k, n). (a, Some n)) ms) = [(a, map_of rs a)]" for a
    by (simp add: filter_key_lookup [OF assms] split: option.splits)
  then show ?thesis by (simp add: merge_left_def)
qed

lemma existing_areas_level:
  "existing_areas (Some (grupo_barrio df actividad_sel)) (Some (grupo_distrito df actividad_sel)) lv
     = groupby_size (level_col lv) (df_plot df actividad_sel)"
  by (cases lv) (simp_all add: existing_areas_def grupo_barrio_def grupo_distrito_def level_col_def)

lemma fillna0_groupby:
  "fillna0 (map_of (groupby_size column (df_plot df actividad_sel)) a)
     = matching df actividad_sel column a"
proof (cases "\<exists>r \<in> set df. desc_epigrafe r = Some (normalize_str (Some actividad_sel)) \<and> column r = Some a")
  case True
  then show ?thesis by (simp add: groupby_size_count fillna0_def)
next
  case False
  then have "filter (\<lambda>r. desc_epigrafe r = Some (normalize_str (Some actividad_sel)) \<and>
                           column r = Some a) df = []"
    by (auto simp: filter_empty_conv)
  with False show ?thesis by (simp add: groupby_size_count fillna0_def matching_def)
qed

lemma table_rows_area:
  assumes "length names = length counts" and "length counts = length cats"
  shows "map area (table_rows names counts cats) = names"
  using assms unfolding table_rows_def
  by (induction names counts cats rule: list_induct3) simp_all

lemma table_rows_count:
  assumes "length names = length cats" and "row \<in> set (table_rows names (map g names) cats)"
  shows "n_locales row = g (area row)"
proof -
  from assms(2) obtain a n c where z: "(a, n, c) \<in> set (zip names (zip (map g names) cats))"
    and row: "row = \<lparr>area = a, n_locales = n, categoria = c\<rparr>"
    unfolding table_rows_def by auto
  from z obtain i where "i < length names" "names ! i = a" "zip (map g names) cats ! i = (n, c)"
    by (auto simp: in_set_zip)
  with assms(1) have "n = g a" by simp
  with row show ?thesis by simp
qed

lemma tabla_op_rows:
  "\<exists>cats. length cats = length (all_areas df lv) \<and>
     tabla_op df actividad_sel lv
       = Inr (sort_key (\<lambda>row. (n_locales row, area row))
                (table_rows (all_areas df lv)
                   (map (matching df actividad_sel (level_col lv)) (all_areas df lv)) cats))"
proof -
  let ?all = "all_areas df lv"
  let ?g = "groupby_size (level_col lv) (df_plot df actividad_sel)"
  let ?counts = "map (matching df actividad_sel (level_col lv)) ?all"
  have comp: "merge_left ?all ?g = map (\<lambda>a. (a, map_of ?g a)) ?all"
    by (rule merge_left_lookup) (rule groupby_size_keys)
  have names: "map fst (map (\<lambda>a. (a, map_of ?g a)) ?all) = ?all" by (simp add: comp_def)
  have counts: "map (\<lambda>(a, n). fillna0 n) (map (\<lambda>a. (a, map_of ?g a)) ?all) = ?counts"
    by (simp add: comp_def fillna0_groupby)
  let ?categories = "if 0 < length (map (\<lambda>a. (a, map_of ?g a)) ?all) \<and> 0 < Max (set ?counts)
                     then quantile_labels ?counts
                     else Inr (replicate (length (map (\<lambda>a. (a, map_of ?g a)) ?all)) (Some ''Sin datos''))"
  obtain cats where cats: "?categories = Inr cats" "length cats = length ?all"
    using quantile_labels_total [of ?counts] by (cases "0 < length ?all \<and> 0 < Max (set ?counts)") auto
  have "tabla_op df actividad_sel lv
        = Inr (sort_key (\<lambda>row. (n_locales row, area row)) (table_rows ?all ?counts cats))"
    unfolding tabla_op_def compute_opportunities_def existing_areas_level Let_def comp names counts
      cats(1) table_rows_def by simp
  with cats(2) show ?thesis by blast
qed

lemma all_areas_set: "set (all_areas df lv) = {a. \<exists>r \<in> set df. level_col lv r = Some a}"
proof -
  have "Some a \<in> level_col lv ` set df \<longleftrightarrow> (\<exists>r \<in> set df. level_col lv r = Some a)" for a
    by (metis image_iff)
  then show ?thesis by (simp add: all_areas_def set_unique set_dropna)
qed

lemma all_areas_distinct: "distinct (all_areas df lv)"
  by (simp add: all_areas_def distinct_unique)

lemma distinct_map_sort_key:
  assumes "distinct (map g xs)"
  shows "distinct (map g (sort_key f xs))"
proof -
  from assms have "distinct xs" and "inj_on g (set xs)" by (simp_all add: distinct_map)
  then show ?thesis by (simp add: distinct_map)
qed

lemmas table_eval = tabla_op_def compute_opportunities_def grupo_barrio_def grupo_distrito_def
  groupby_size_def df_plot_def dropna_def merge_left_def all_areas_def existing_areas_def
  level_col_def fillna0_def

lemma ex_abc_activity: "normalize_str (Some PANADERIA) = PANADERIA"
  by (simp add: normalize_eval PANADERIA_def)

lemma ex_abc_plot:
  "df_plot ex_abc PANADERIA = [local PANADERIA [0x43] RETIRO None None,
      local PANADERIA [0x43] RETIRO None None, local PANADERIA [0x43] RETIRO None None]"
proof -
  have "BAR \<noteq> PANADERIA" by (simp add: BAR_def PANADERIA_def)
  then show ?thesis by (simp add: df_plot_def ex_abc_activity ex_abc_def local_def)
qed

lemma ex_abc_grupo: "grupo_barrio ex_abc PANADERIA = [([0x43], 3)]"
  by (simp add: grupo_barrio_def ex_abc_plot groupby_size_def dropna_def unique_def local_def)

lemma ex_abc_areas: "all_areas ex_abc Barrio = [[0x41], [0x42], [0x43]]"
  by (simp add: all_areas_def level_col_def ex_abc_def local_def dropna_def unique_def)

lemma ex_abc_merge:
  "merge_left [[0x41], [0x42], [0x43]] [([0x43], 3)]
     = [([0x41], None), ([0x42], None), ([0x43], Some 3)]"
  by (simp add: merge_left_def)

lemma ex_abc_labels: "quantile_labels [0, 0, 3] = Inr [Some ''Baja'', Some ''Baja'', Some ''Alta'']"
  by (simp add: tier_eval)

lemma ex_abc_table:
  "tabla_op ex_abc PANADERIA Barrio
     = Inr [\<lparr>area = [0x41], n_locales = 0, categoria = Some ''Baja''\<rparr>,
            \<lparr>area = [0x42], n_locales = 0, categoria = Some ''Baja''\<rparr>,
            \<lparr>area = [0x43], n_locales = 3, categoria = Some ''Alta''\<rparr>]"
  unfolding tabla_op_def compute_opportunities_def ex_abc_areas ex_abc_grupo
  by (simp add: existing_areas_def ex_abc_merge fillna0_def ex_abc_labels)

lemma tabla_op_sorted:
  "\<exists>out. tabla_op df actividad_sel lv = Inr out \<and>
      sorted (map (\<lambda>row. (n_locales row, area row)) out) \<and> distinct (map area out)"
proof -
  let ?all = "all_areas df lv"
  let ?counts = "map (matching df actividad_sel (level_col lv)) ?all"
  from tabla_op_rows [of df lv actividad_sel] obtain cats where
    len: "length cats = length ?all" and
    out: "tabla_op df actividad_sel lv
       = Inr (sort_key (\<lambda>row. (n_locales row, area row)) (table_rows ?all ?counts cats))"
    by blast
  have "map area (table_rows ?all ?counts cats) = ?all"
    using len by (intro table_rows_area) simp_all
  then have "distinct (map area (sort_key (\<lambda>row. (n_locales row, area row))
                                   (table_rows ?all ?counts cats)))"
    by (intro distinct_map_sort_key) (simp add: all_areas_distinct)
  with out show ?thesis by (simp add: sorted_sort_key)
qed

lemma ranked_pair:
  assumes "sorted (map (\<lambda>row. (n_locales row, area row)) out)" and "distinct (map area out)"
    and "i < j" and "j < length out"
  shows "n_locales (out ! i) < n_locales (out ! j) \<or>
         (n_locales (out ! i) = n_locales (out ! j) \<and> area (out ! i) < area (out ! j))"
proof -
  from assms(1,3,4) have "(n_locales (out ! i), area (out ! i)) \<le> (n_locales (out ! j), area (out ! j))"
    using sorted_nth_mono [of "map (\<lambda>row. (n_locales row, area row)) out" i j] by simp
  moreover from assms(2,3,4) have "area (out ! i) \<noteq> area (out ! j)"
    using nth_eq_iff_index_eq [of "map area out" i j] by simp
  ultimately show ?thesis by auto
qed

section \<open>Every area gets its row\<close>

text \<open>
  C3: for every data frame, selected activity and granularity, the opportunity table is
  computed without error and has exactly one row for each distinct area name of the full
  data frame at that granularity: the area names of the rows are distinct, they are those
  names, and there are as many rows as names. Each row counts the records of the activity
  in its area, so an area absent from the activity's group frame has count zero.
\<close>

theorem zero_fill_completeness:
  "\<exists>out. tabla_op df actividad_sel lv = Inr out \<and>
      distinct (map area out) \<and>
      set (map area out) = {a. \<exists>r \<in> set df. level_col lv r = Some a} \<and>
      length out = card {a. \<exists>r \<in> set df. level_col lv r = Some a} \<and>
      (\<forall>row \<in> set out.
         n_locales row = matching df actividad_sel (level_col lv) (area row) \<and>
         (area row \<notin> fst ` set (groupby_size (level_col lv) (df_plot df actividad_sel))
            \<longrightarrow> n_locales row = 0))"
proof -
  let ?all = "all_areas df lv"
  let ?counts = "map (matching df actividad_sel (level_col lv)) ?all"
  from tabla_op_rows [of df lv actividad_sel] obtain cats where
    len: "length cats = length ?all" and
    out: "tabla_op df actividad_sel lv
       = Inr (sort_key (\<lambda>row. (n_locales row, area row)) (table_rows ?all ?counts cats))"
    by blast
  let ?rows = "table_rows ?all ?counts cats"
  let ?out = "sort_key (\<lambda>row. (n_locales row, area row)) ?rows"
  have areas: "map area ?rows = ?all" using len by (intro table_rows_area) simp_all
  have d: "distinct (map area ?out)"
    by (rule distinct_map_sort_key) (simp add: areas all_areas_distinct)
  have s: "set (map area ?out) = {a. \<exists>r \<in> set df. level_col lv r = Some a}"
  proof -
    have "set (map area ?out) = area ` set ?rows" by simp
    also have "\<dots> = set (map area ?rows)" by simp
    finally show ?thesis by (simp only: areas all_areas_set)
  qed
  have l: "length ?out = card {a. \<exists>r \<in> set df. level_col lv r = Some a}"
  proof -
    have "card (set (map area ?out)) = length (map area ?out)" using d by (rule distinct_card)
    then show ?thesis by (simp only: s length_map)
  qed
  have c: "n_locales row = matching df actividad_sel (level_col lv) (area row)"
    if "row \<in> set ?out" for row
  proof -
    from that have "row \<in> set ?rows" by simp
    with len show ?thesis by (intro table_rows_count [where cats = cats]) simp_all
  qed
  have z: "n_locales row = 0"
    if "row \<in> set ?out"
      and "area row \<notin> fst ` set (groupby_size (level_col lv) (df_plot df actividad_sel))" for row
  proof -
    from that(2) have "map_of (groupby_size (level_col lv) (df_plot df actividad_sel)) (area row) = None"
      by (simp add: map_of_eq_None_iff)
    then have "fillna0 (map_of (groupby_size (level_col lv) (df_plot df actividad_sel)) (area row)) = 0"
      by (simp add: fillna0_def)
    with c [OF that(1)] show ?thesis by (simp add: fillna0_groupby)
  qed
  from out d s l c z show ?thesis by blast
qed

theorem zero_fill_completeness_witness:
  "card {a. \<exists>r \<in> set ex_abc. level_col Barrio r = Some a} = 3 \<and>
   n_locales \<lparr>area = [0x41], n_locales = 0, categoria = Some ''Baja''\<rparr> = 0 \<and>
   tabla_op ex_abc PANADERIA Barrio
     = Inr [\<lparr>area = [0x41], n_locales = 0, categoria = Some ''Baja''\<rparr>,
            \<lparr>area = [0x42], n_locales = 0, categoria = Some ''Baja''\<rparr>,
            \<lparr>area = [0x43], n_locales = 3, categoria = Some ''Alta''\<rparr>]"
proof -
  let ?A = "\<lparr>area = [0x41], n_locales = 0, categoria = Some ''Baja''\<rparr>"
  let ?t = "[?A, \<lparr>area = [0x42], n_locales = 0, categoria = Some ''Baja''\<rparr>,
             \<lparr>area = [0x43], n_locales = 3, categoria = Some ''Alta''\<rparr>]"
  from zero_fill_completeness [of ex_abc PANADERIA Barrio] obtain out where
    out: "tabla_op ex_abc PANADERIA Barrio = Inr out"
    and len: "length out = card {a. \<exists>r \<in> set ex_abc. level_col Barrio r = Some a}"
    and zero: "\<forall>row \<in> set out.
         area row \<notin> fst ` set (groupby_size (level_col Barrio) (df_plot ex_abc PANADERIA))
           \<longrightarrow> n_locales row = 0"
    by blast
  from out have t: "out = ?t" by (simp add: ex_abc_table)
  have "groupby_size (level_col Barrio) (df_plot ex_abc PANADERIA) = [([0x43], 3)]"
    using ex_abc_grupo by (simp add: grupo_barrio_def level_col_def)
  then have "area ?A \<notin> fst ` set (groupby_size (level_col Barrio) (df_plot ex_abc PANADERIA))"
    by simp
  moreover have "?A \<in> set out" by (simp add: t)
  ultimately have "n_locales ?A = 0" using zero by blast
  with len t ex_abc_table show ?thesis by simp
qed

section \<open>The table is ranked by count, then by area name\<close>

text \<open>
  C4: the rows of the opportunity table are sorted by the pair (count, area name): of two
  rows, the earlier has the smaller count or, with equal counts, the smaller area name
  (in the order of Python strings). For the counts A: 0, B: 0, C: 3 the rows come out in
  the order A, B, C.
\<close>

theorem ranking_determinism:
  "(\<exists>out. tabla_op df actividad_sel lv = Inr out \<and>
      sorted (map (\<lambda>row. (n_locales row, area row)) out) \<and>
      (\<forall>j < length out. \<forall>i < j.
          n_locales (out ! i) < n_locales (out ! j) \<or>
          (n_locales (out ! i) = n_locales (out ! j) \<and> area (out ! i) < area (out ! j)))) \<and>
   tabla_op ex_abc PANADERIA Barrio
     = Inr [\<lparr>area = [0x41], n_locales = 0, categoria = Some ''Baja''\<rparr>,
            \<lparr>area = [0x42], n_locales = 0, categoria = Some ''Baja''\<rparr>,
            \<lparr>area = [0x43], n_locales = 3, categoria = Some ''Alta''\<rparr>]"
proof -
  from tabla_op_sorted [of df actividad_sel lv] obtain out where
    out: "tabla_op df actividad_sel lv = Inr out"
    and s: "sorted (map (\<lambda>row. (n_locales row, area row)) out)"
    and d: "distinct (map area out)" by blast
  from s d have "\<forall>j < length out. \<forall>i < j.
          n_locales (out ! i) < n_locales (out ! j) \<or>
          (n_locales (out ! i) = n_locales (out ! j) \<and> area (out ! i) < area (out ! j))"
    using ranked_pair by blast
  with out s ex_abc_table show ?thesis by blast
qed

theorem ranking_determinism_witness:
  "map area [\<lparr>area = [0x41], n_locales = 0, categoria = Some ''Baja''\<rparr>,
             \<lparr>area = [0x42], n_locales = 0, categoria = Some ''Baja''\<rparr>,
             \<lparr>area = [0x43 :: nat], n_locales = 3 :: int, categoria = Some ''Alta''\<rparr>]
     = [[0x41], [0x42], [0x43]] \<and>
   sorted (map (\<lambda>row. (n_locales row, area row))
     [\<lparr>area = [0x41], n_locales = 0, categoria = Some ''Baja''\<rparr>,
      \<lparr>area = [0x42], n_locales = 0, categoria = Some ''Baja''\<rparr>,
      \<lparr>area = [0x43 :: nat], n_locales = 3 :: int, categoria = Some ''Alta''\<rparr>])"
proof -
  from ranking_determinism [of ex_abc PANADERIA Barrio] obtain out where
    "tabla_op ex_abc PANADERIA Barrio = Inr out"
    "sorted (map (\<lambda>row. (n_locales row, area row)) out)"
    "tabla_op ex_abc PANADERIA Barrio
     = Inr [\<lparr>area = [0x41], n_locales = 0, categoria = Some ''Baja''\<rparr>,
            \<lparr>area = [0x42], n_locales = 0, categoria = Some ''Baja''\<rparr>,
            \<lparr>area = [0x43], n_locales = 3, categoria = Some ''Alta''\<rparr>]"
    by blast
  then show ?thesis by auto
qed

section \<open>Counts do not depend on coordinates\<close>

lemma grupo_erased:
  assumes "map erase_coordinates df1 = map erase_coordinates df2"
  shows "groupby_size desc_barrio_local (df_plot df1 a) = groupby_size desc_barrio_local (df_plot df2 a)"
    and "groupby_size desc_distrito_local (df_plot df1 a) = groupby_size desc_distrito_local (df_plot df2 a)"
  using erased_columns [OF assms, where column = desc_barrio_local]
    erased_columns [OF assms, where column = desc_distrito_local]
  by (simp_all add: groupby_as_pairs erase_coordinates_def)

lemma erase_fill_tier: "erase_coordinates (fill_tier column index r) = erase_coordinates r"
proof (cases index)
  case (Some m)
  then show ?thesis by (simp add: fill_tier_def fill_row_columns erase_coordinates_def)
qed (simp add: fill_tier_def)

lemma erase_complete:
  "map erase_coordinates (complete_coordinates bi di df) = map erase_coordinates df"
  by (simp add: complete_coordinates_rowwise comp_def erase_fill_tier)

text \<open>
  C9: two data frames that agree once their coordinate columns are erased have the same
  per-area counts of a selected activity, by neighbourhood and by district; in particular
  the counts are the same before and after coordinate completion; and a record of the
  activity is counted in the group of its named area whatever its coordinates are,
  undefined ones included.
\<close>

theorem aggregation_ignores_coordinates:
  "(map erase_coordinates df1 = map erase_coordinates df2 \<longrightarrow>
      grupo_barrio df1 actividad_sel = grupo_barrio df2 actividad_sel \<and>
      grupo_distrito df1 actividad_sel = grupo_distrito df2 actividad_sel) \<and>
   grupo_barrio (complete_coordinates barrios_index distritos_index df) actividad_sel
     = grupo_barrio df actividad_sel \<and>
   grupo_distrito (complete_coordinates barrios_index distritos_index df) actividad_sel
     = grupo_distrito df actividad_sel \<and>
   (r \<in> set df \<and> desc_epigrafe r = Some (normalize_str (Some actividad_sel)) \<and>
    desc_barrio_local r = Some b \<longrightarrow>
      map_of (grupo_barrio df actividad_sel) b
        = Some (matching df actividad_sel desc_barrio_local b) \<and>
      0 < matching df actividad_sel desc_barrio_local b)"
proof (intro conjI impI)
  assume e: "map erase_coordinates df1 = map erase_coordinates df2"
  from grupo_erased [OF e] show "grupo_barrio df1 actividad_sel = grupo_barrio df2 actividad_sel"
    and "grupo_distrito df1 actividad_sel = grupo_distrito df2 actividad_sel"
    by (simp_all add: grupo_barrio_def grupo_distrito_def)
next
  from grupo_erased [OF erase_complete]
  show "grupo_barrio (complete_coordinates barrios_index distritos_index df) actividad_sel
          = grupo_barrio df actividad_sel"
    and "grupo_distrito (complete_coordinates barrios_index distritos_index df) actividad_sel
          = grupo_distrito df actividad_sel"
    by (simp_all add: grupo_barrio_def grupo_distrito_def)
next
  assume r: "r \<in> set df \<and> desc_epigrafe r = Some (normalize_str (Some actividad_sel)) \<and>
    desc_barrio_local r = Some b"
  then show "map_of (grupo_barrio df actividad_sel) b
        = Some (matching df actividad_sel desc_barrio_local b)"
    by (auto simp: grupo_barrio_def groupby_size_count)
  from r have "r \<in> set (filter (\<lambda>r. desc_epigrafe r = Some (normalize_str (Some actividad_sel)) \<and>
                              desc_barrio_local r = Some b) df)" by simp
  then have "0 < length (filter (\<lambda>r. desc_epigrafe r = Some (normalize_str (Some actividad_sel)) \<and>
                              desc_barrio_local r = Some b) df)"
    by (metis length_pos_if_in_set)
  then show "0 < matching df actividad_sel desc_barrio_local b" by (simp add: matching_def)
qed

lemma ex_locales_grupo: "grupo_barrio ex_locales PANADERIA = [(PACIFICO, 2), (RETIRO, 1)]"
proof -
  have "PACIFICO \<noteq> RETIRO" "PACIFICO < RETIRO" by (simp_all add: PACIFICO_def RETIRO_def)
  then show ?thesis
    by (simp add: grupo_barrio_def groupby_size_def df_plot_def ex_abc_activity ex_locales_def
        local_def dropna_def unique_def)
qed

theorem aggregation_ignores_coordinates_witness:
  "grupo_barrio (complete_coordinates (Some ex_barrios) (Some ex_distritos) ex_locales) PANADERIA
     = [(PACIFICO, 2), (RETIRO, 1)] \<and>
   lat (ex_locales ! 1) = None \<and> desc_barrio_local (ex_locales ! 1) = Some RETIRO \<and>
   map_of (grupo_barrio ex_locales PANADERIA) RETIRO = Some 1"
proof -
  have e: "map erase_coordinates (complete_coordinates (Some ex_barrios) (Some ex_distritos) ex_locales)
           = map erase_coordinates ex_locales" by (rule erase_complete)
  have r: "ex_locales ! 1 \<in> set ex_locales \<and>
           desc_epigrafe (ex_locales ! 1) = Some (normalize_str (Some PANADERIA)) \<and>
           desc_barrio_local (ex_locales ! 1) = Some RETIRO"
    by (simp add: ex_locales_def local_def ex_abc_activity)
  have l: "lat (ex_locales ! 1) = None" by (simp add: ex_locales_def local_def)
  from aggregation_ignores_coordinates [of "complete_coordinates (Some ex_barrios) (Some ex_distritos) ex_locales"
      ex_locales PANADERIA "Some ex_barrios" "Some ex_distritos" ex_locales "ex_locales ! 1" RETIRO] e r
  have "grupo_barrio (complete_coordinates (Some ex_barrios) (Some ex_distritos) ex_locales) PANADERIA
          = grupo_barrio ex_locales PANADERIA"
    and "map_of (grupo_barrio ex_locales PANADERIA) RETIRO
          = Some (matching ex_locales PANADERIA desc_barrio_local RETIRO)" by blast+
  moreover have "map_of (grupo_barrio ex_locales PANADERIA) RETIRO = Some 1"
    unfolding ex_locales_grupo by (simp add: PACIFICO_def RETIRO_def)
  ultimately show ?thesis using r l by (simp add: ex_locales_grupo)
qed

section \<open>A missing boundary file\<close>

text \<open>
  C8, as stated: for a path that does not exist or a file that cannot be read, the loader
  returns an empty mapping rather than crashing. \<open>load_geojson\<close> guards the missing path
  only: a file that is there but cannot be opened, or is not JSON, raises out of the
  loader; and for a missing file the result is no mapping at all (\<open>None\<close>), not an
  empty one.
\<close>

theorem load_geojson_unreadable_raises:
  "load_geojson (Map.empty(''assets/barrios_madrid.geojson'' \<mapsto> Unreadable))
     ''assets/barrios_madrid.geojson'' NOMBRE = Inl OSError \<and>
   load_geojson (Map.empty(''assets/barrios_madrid.geojson'' \<mapsto> NotJSON))
     ''assets/barrios_madrid.geojson'' NOMBRE = Inl JSONDecodeError \<and>
   load_geojson Map.empty ''assets/barrios_madrid.geojson'' NOMBRE = Inr (None, None) \<and>
   load_geojson Map.empty ''assets/barrios_madrid.geojson'' NOMBRE \<noteq> Inr (None, Some [])"
  by (simp add: load_geojson_def)

lemma complete_None_barrios:
  "complete_coordinates None di df = complete_coordinates (Some []) di df"
  by (simp add: complete_coordinates_rowwise fill_tier_def fill_row_empty_index)

lemma complete_None_distritos:
  "complete_coordinates bi None df = complete_coordinates bi (Some []) df"
  by (simp add: complete_coordinates_rowwise fill_tier_def fill_row_empty_index)

text \<open>
  C8, amended: when the path is empty or no file exists at it, the loader returns no
  collection and no mapping, \<open>(None, None)\<close>, without raising; and coordinate completion
  treats a mapping that is \<open>None\<close> exactly as an empty mapping, so that tier fills
  nothing, and with both tiers absent the data frame is returned as it is.
\<close>

theorem load_geojson_missing_file:
  assumes "path = [] \<or> fs path = None"
  shows "load_geojson fs path prop_key = Inr (None, None) \<and>
         complete_coordinates None distritos_index df
           = complete_coordinates (Some []) distritos_index df \<and>
         complete_coordinates barrios_index None df
           = complete_coordinates barrios_index (Some []) df \<and>
         complete_coordinates None None df = df"
proof -
  from assms have "load_geojson fs path prop_key = Inr (None, None)"
    by (auto simp: load_geojson_def)
  moreover have "complete_coordinates None None df = df"
    by (simp add: complete_coordinates_def nonempty_index_def)
  ultimately show ?thesis
    using complete_None_barrios complete_None_distritos by simp
qed

theorem load_geojson_missing_file_witness:
  "load_geojson Map.empty ''assets/distritos_madrid.geojson'' NOMBRE = Inr (None, None) \<and>
   complete_coordinates (Some ex_barrios) None ex_locales
     = complete_coordinates (Some ex_barrios) (Some []) ex_locales"
proof -
  have "''assets/distritos_madrid.geojson'' = [] \<or>
        (Map.empty :: filesystem) ''assets/distritos_madrid.geojson'' = None" by simp
  from load_geojson_missing_file [OF this, of NOMBRE None ex_locales "Some ex_barrios"]
  show ?thesis by simp
qed

end
